theory Spec2Isabelle
  imports Complex_Main "HOL-Library.Char_ord" "HOL-Library.List_Lexorder"
begin

section \<open>Numbers and errors\<close>

text \<open>
  Python floats are modelled as \<^typ>\<open>real\<close>: finite values with exact arithmetic. The
  model therefore says nothing about \<open>inf\<close>, \<open>nan\<close> or the rounding error of a single
  float operation; every equation below is an equation of the expressions the code
  evaluates. Exceptions are values of type \<open>error\<close>; a computation that may raise returns
  \<open>error + 'a\<close> with \<open>Inl\<close> for the exception.
\<close>

datatype error = ZeroDivisionError | ValueError | TypeError | AttributeError

definition py_div :: "real \<Rightarrow> real \<Rightarrow> error + real" where
  \<comment> \<open>Python's \<open>a / b\<close> on floats raises when the divisor is zero.\<close>
  "py_div a b = (if b = 0 then Inl ZeroDivisionError else Inr (a / b))"

definition round_half_even :: "real \<Rightarrow> int" where
  "round_half_even x =
     (let f = \<lfloor>x\<rfloor>; d = x - of_int f
      in if d < 1 / 2 then f else if 1 / 2 < d then f + 1 else if even f then f else f + 1)"

definition py_round2 :: "real \<Rightarrow> real" where
  \<comment> \<open>\<open>round(x, 2)\<close>: the nearest multiple of 0.01, ties to the even one.\<close>
  "py_round2 x = of_int (round_half_even (x * 100)) / 100"

section \<open>Rows of the store\<close>

text \<open>
  The tables of \<open>models.py\<close>. A timestamp is kept as the text SQLite stores.
\<close>

record investment =
  inv_id :: nat
  inv_user_id :: nat
  inv_symbol :: string
  inv_category :: string
  inv_quantity :: real
  inv_buy_price :: real
  inv_purchase_date :: string

section \<open>The valuation pass of \<open>dashboard\<close>\<close>

text \<open>
  \<open>get_live_price\<close> asks the market-data service; it returns a float or \<open>None\<close> and never
  raises (its body is wrapped in \<open>try/except Exception\<close>). It is a parameter
  \<open>glp :: string \<Rightarrow> real option\<close> of the model: the answers of the service during one request.
\<close>

text \<open>
  The locals of one iteration of the loop, before any rounding
  (\<open>current_value\<close>, \<open>cost\<close>, \<open>profit_loss\<close>, \<open>pct_return\<close>).
\<close>

record holding_calc =
  current_value :: real
  cost :: real
  profit_loss :: real
  pct_return :: real

definition guarded_pct :: "real \<Rightarrow> real \<Rightarrow> error + real" where
  \<comment> \<open>\<open>(num / den * 100) if den > 0 else 0\<close>\<close>
  "guarded_pct num den =
     (if den > 0
      then (case py_div num den of Inl e \<Rightarrow> Inl e | Inr q \<Rightarrow> Inr (q * 100))
      else Inr 0)"

definition holding_metrics :: "real \<Rightarrow> real \<Rightarrow> real \<Rightarrow> error + holding_calc" where
  "holding_metrics quantity buy_price live_price =
     (let cv = quantity * live_price;
          c = quantity * buy_price;
          pl = cv - c
      in case guarded_pct (live_price - buy_price) buy_price of
           Inl e \<Rightarrow> Inl e
         | Inr pct \<Rightarrow>
             Inr \<lparr>current_value = cv, cost = c, profit_loss = pl, pct_return = pct\<rparr>)"

text \<open>The dictionary appended to \<open>updated_investments\<close>.\<close>

record valuation_row =
  row_id :: nat
  row_symbol :: string
  row_category :: string
  row_quantity :: real
  row_buy_price :: real
  row_current_price :: real
  row_value :: real
  row_profit_loss :: real
  row_pct_return :: real
  row_purchase_date :: string

record pass_state =
  total_value :: real
  total_cost :: real
  updated_investments :: "valuation_row list"
  failed_symbols :: "string list"

definition valuation_step ::
  "(string \<Rightarrow> real option) \<Rightarrow> pass_state \<Rightarrow> investment \<Rightarrow> error + pass_state" where
  "valuation_step glp st h =
     (let symbol = inv_symbol h;
          fetched = glp symbol;
          failed = (case fetched of None \<Rightarrow> failed_symbols st @ [symbol]
                    | Some _ \<Rightarrow> failed_symbols st);
          live_price = (case fetched of None \<Rightarrow> 0 | Some p \<Rightarrow> p);
          quantity = inv_quantity h;
          buy_price = inv_buy_price h
      in case holding_metrics quantity buy_price live_price of
           Inl e \<Rightarrow> Inl e
         | Inr m \<Rightarrow>
             Inr \<lparr>total_value = total_value st + current_value m,
                  total_cost = total_cost st + cost m,
                  updated_investments = updated_investments st @
                    [\<lparr>row_id = inv_id h,
                      row_symbol = symbol,
                      row_category = inv_category h,
                      row_quantity = quantity,
                      row_buy_price = buy_price,
                      row_current_price = py_round2 live_price,
                      row_value = py_round2 (current_value m),
                      row_profit_loss = py_round2 (profit_loss m),
                      row_pct_return = py_round2 (pct_return m),
                      row_purchase_date = inv_purchase_date h\<rparr>],
                  failed_symbols = failed\<rparr>)"

fun valuation_loop ::
  "(string \<Rightarrow> real option) \<Rightarrow> pass_state \<Rightarrow> investment list \<Rightarrow> error + pass_state" where
  "valuation_loop glp st [] = Inr st"
| "valuation_loop glp st (h # hs) =
     (case valuation_step glp st h of
        Inl e \<Rightarrow> Inl e
      | Inr st' \<Rightarrow> valuation_loop glp st' hs)"

text \<open>
  \<open>category_totals\<close> is a \<open>defaultdict(float)\<close>; its keys keep the order of first
  insertion, so it is an association list. \<open>d[k] += v\<close> starts a new key at \<open>0.0\<close>.
\<close>

fun add_to_bucket :: "string \<Rightarrow> real \<Rightarrow> (string \<times> real) list \<Rightarrow> (string \<times> real) list" where
  "add_to_bucket k v [] = [(k, 0 + v)]"
| "add_to_bucket k v ((k', t) # kts) =
     (if k' = k then (k', t + v) # kts else (k', t) # add_to_bucket k v kts)"

fun category_loop :: "(string \<times> real) list \<Rightarrow> valuation_row list \<Rightarrow> (string \<times> real) list" where
  "category_loop totals [] = totals"
| "category_loop totals (r # rs) =
     category_loop (add_to_bucket (row_category r) (row_value r) totals) rs"

text \<open>The locals of \<open>dashboard\<close> once both loops have run.\<close>

record portfolio_summary =
  pass :: pass_state
  total_profit_loss :: real
  total_return_pct :: real
  category_totals :: "(string \<times> real) list"

definition valuate ::
  "(string \<Rightarrow> real option) \<Rightarrow> investment list \<Rightarrow> error + portfolio_summary" where
  "valuate glp hs =
     (case valuation_loop glp
             \<lparr>total_value = 0, total_cost = 0, updated_investments = [], failed_symbols = []\<rparr>
             hs of
        Inl e \<Rightarrow> Inl e
      | Inr st \<Rightarrow>
          (case guarded_pct (total_value st - total_cost st) (total_cost st) of
             Inl e \<Rightarrow> Inl e
           | Inr pct \<Rightarrow>
               Inr \<lparr>pass = st,
                    total_profit_loss = total_value st - total_cost st,
                    total_return_pct = pct,
                    category_totals = category_loop [] (updated_investments st)\<rparr>))"

text \<open>
  What \<open>render_template\<close> receives: the totals are rounded here and only here; the
  category values are passed as they were accumulated.
\<close>

record template_context =
  ctx_investments :: "valuation_row list"
  ctx_total_value :: real
  ctx_total_cost :: real
  ctx_profit_loss :: real
  ctx_return_pct :: real
  ctx_category_labels :: "string list"
  ctx_category_values :: "real list"
  ctx_has_investments :: bool
  ctx_warning :: "string list option"

definition present :: "portfolio_summary \<Rightarrow> template_context" where
  "present s =
     \<lparr>ctx_investments = updated_investments (pass s),
      ctx_total_value = py_round2 (total_value (pass s)),
      ctx_total_cost = py_round2 (total_cost (pass s)),
      ctx_profit_loss = py_round2 (total_profit_loss s),
      ctx_return_pct = py_round2 (total_return_pct s),
      ctx_category_labels = map fst (category_totals s),
      ctx_category_values = map snd (category_totals s),
      ctx_has_investments = (length (updated_investments (pass s)) > 0),
      ctx_warning = (if failed_symbols (pass s) \<noteq> [] then Some (failed_symbols (pass s)) else None)\<rparr>"

section \<open>The store and a connection to it\<close>

record txn =
  txn_id :: nat
  txn_user_id :: nat
  txn_symbol :: string
  txn_type :: string
  txn_quantity :: real
  txn_price :: real
  txn_date :: string

text \<open>
  Both tables are \<open>INTEGER PRIMARY KEY AUTOINCREMENT\<close>: a new row takes the successor of
  the largest id the table has ever used, which SQLite keeps per table
  (\<open>investments_seq\<close>, \<open>transactions_seq\<close>).
\<close>

record db =
  investments :: "investment list"
  transactions :: "txn list"
  investments_seq :: nat
  transactions_seq :: nat

text \<open>
  A connection sees its own writes at once; the file changes at \<open>commit\<close> only. What has
  not been committed when the connection goes away, closed or dropped, is rolled back.
\<close>

record conn =
  committed :: db
  uncommitted :: db

definition get_db :: "db \<Rightarrow> conn" where
  "get_db d = \<lparr>committed = d, uncommitted = d\<rparr>"

definition commit :: "conn \<Rightarrow> conn" where
  "commit c = c\<lparr>committed := uncommitted c\<rparr>"

definition close :: "conn \<Rightarrow> db" where
  "close c = committed c"

text \<open>The SQL statements of \<open>app.py\<close>, each on the connection's view of the tables.\<close>

definition select_investment :: "nat \<Rightarrow> nat \<Rightarrow> conn \<Rightarrow> investment option" where
  \<comment> \<open>\<open>SELECT * FROM investments WHERE id = ? AND user_id = ?\<close>, \<open>fetchone()\<close>\<close>
  "select_investment i user c =
     find (\<lambda>r. inv_id r = i \<and> inv_user_id r = user) (investments (uncommitted c))"

definition select_dashboard :: "nat \<Rightarrow> conn \<Rightarrow> investment list" where
  \<comment> \<open>\<open>SELECT * FROM investments WHERE user_id = ? ORDER BY symbol\<close>; rows with equal
      symbols are kept in table order here, SQL leaves their order open.\<close>
  "select_dashboard user c =
     sort_key inv_symbol (filter (\<lambda>r. inv_user_id r = user) (investments (uncommitted c)))"

definition select_export :: "nat \<Rightarrow> conn \<Rightarrow> investment list" where
  \<comment> \<open>\<open>SELECT symbol, category, quantity, buy_price, purchase_date FROM investments
      WHERE user_id = ?\<close>\<close>
  "select_export user c = filter (\<lambda>r. inv_user_id r = user) (investments (uncommitted c))"

definition insert_investment ::
  "string \<Rightarrow> nat \<Rightarrow> string \<Rightarrow> string \<Rightarrow> real \<Rightarrow> real \<Rightarrow> conn \<Rightarrow> conn" where
  \<comment> \<open>\<open>INSERT INTO investments (user_id, symbol, category, quantity, buy_price)\<close>;
      \<open>purchase_date\<close> defaults to the current timestamp \<open>now\<close>.\<close>
  "insert_investment now user symbol category quantity buy_price c =
     (let d = uncommitted c; n = Suc (investments_seq d)
      in c\<lparr>uncommitted :=
             d\<lparr>investments := investments d @
                  [\<lparr>inv_id = n, inv_user_id = user, inv_symbol = symbol,
                    inv_category = category, inv_quantity = quantity,
                    inv_buy_price = buy_price, inv_purchase_date = now\<rparr>],
               investments_seq := n\<rparr>\<rparr>)"

definition insert_transaction ::
  "string \<Rightarrow> nat \<Rightarrow> string \<Rightarrow> string \<Rightarrow> real \<Rightarrow> real \<Rightarrow> conn \<Rightarrow> conn" where
  \<comment> \<open>\<open>INSERT INTO transactions (user_id, symbol, transaction_type, quantity, price)\<close>\<close>
  "insert_transaction now user symbol ttype quantity price c =
     (let d = uncommitted c; n = Suc (transactions_seq d)
      in c\<lparr>uncommitted :=
             d\<lparr>transactions := transactions d @
                  [\<lparr>txn_id = n, txn_user_id = user, txn_symbol = symbol, txn_type = ttype,
                    txn_quantity = quantity, txn_price = price, txn_date = now\<rparr>],
               transactions_seq := n\<rparr>\<rparr>)"

definition update_investment :: "real \<Rightarrow> real \<Rightarrow> nat \<Rightarrow> conn \<Rightarrow> conn" where
  \<comment> \<open>\<open>UPDATE investments SET quantity = ?, buy_price = ? WHERE id = ?\<close>\<close>
  "update_investment quantity buy_price i c =
     (let d = uncommitted c
      in c\<lparr>uncommitted :=
             d\<lparr>investments :=
                  map (\<lambda>r. if inv_id r = i
                           then r\<lparr>inv_quantity := quantity, inv_buy_price := buy_price\<rparr>
                           else r)
                      (investments d)\<rparr>\<rparr>)"

definition delete_investment_row :: "nat \<Rightarrow> nat \<Rightarrow> conn \<Rightarrow> conn" where
  \<comment> \<open>\<open>DELETE FROM investments WHERE id = ? AND user_id = ?\<close>\<close>
  "delete_investment_row i user c =
     (let d = uncommitted c
      in c\<lparr>uncommitted :=
             d\<lparr>investments :=
                  filter (\<lambda>r. \<not> (inv_id r = i \<and> inv_user_id r = user)) (investments d)\<rparr>\<rparr>)"

section \<open>Strings and parsing\<close>

text \<open>
  Texts are ASCII strings. \<open>str.strip()\<close> removes the white space of Python
  (tab, line feed, vertical tab, form feed, carriage return, the four separators
  0x1c to 0x1f, and space) at both ends; \<open>str.upper()\<close> maps \<open>a\<close> to \<open>z\<close>.
\<close>

definition py_isspace :: "char \<Rightarrow> bool" where
  "py_isspace c = (let n = (of_char c :: nat) in (9 \<le> n \<and> n \<le> 13) \<or> (28 \<le> n \<and> n \<le> 32))"

definition py_strip :: "string \<Rightarrow> string" where
  "py_strip s = rev (dropWhile py_isspace (rev (dropWhile py_isspace s)))"

definition upper_char :: "char \<Rightarrow> char" where
  "upper_char c =
     (let n = (of_char c :: nat) in if 97 \<le> n \<and> n \<le> 122 then char_of (n - 32) else c)"

definition py_upper :: "string \<Rightarrow> string" where
  "py_upper s = map upper_char s"

text \<open>
  \<open>float(s)\<close> on a text is Python's own parser: a parameter
  \<open>parse :: string \<Rightarrow> real option\<close>, \<open>None\<close> where Python raises \<open>ValueError\<close>.
  \<open>float(None)\<close> raises \<open>TypeError\<close>. Texts that Python reads as \<open>inf\<close> or \<open>nan\<close> have no
  counterpart in \<^typ>\<open>real\<close>. \<open>str(x)\<close> of a float, which the CSV writer applies, is
  the parameter \<open>str_of :: real \<Rightarrow> string\<close> of \<open>export_csv\<close>.
\<close>

definition py_float :: "(string \<Rightarrow> real option) \<Rightarrow> string option \<Rightarrow> error + real" where
  "py_float parse v =
     (case v of
        None \<Rightarrow> Inl TypeError
      | Some s \<Rightarrow> (case parse s of None \<Rightarrow> Inl ValueError | Some x \<Rightarrow> Inr x))"

definition positive_numbers ::
  "(string \<Rightarrow> real option) \<Rightarrow> string \<Rightarrow> string \<Rightarrow> error + real \<times> real" where
  \<comment> \<open>The \<open>try\<close> block shared by \<open>add_investment\<close> and \<open>edit_investment\<close>.\<close>
  "positive_numbers parse qs bs =
     (case py_float parse (Some qs) of
        Inl e \<Rightarrow> Inl e
      | Inr quantity \<Rightarrow>
          (case py_float parse (Some bs) of
             Inl e \<Rightarrow> Inl e
           | Inr buy_price \<Rightarrow>
               if quantity \<le> 0 \<or> buy_price \<le> 0 then Inl ValueError
               else Inr (quantity, buy_price)))"

section \<open>Requests and responses\<close>

datatype http_method = GET | POST

datatype page = LoginPage | DashboardPage | AddInvestmentPage | EditInvestmentPage nat

datatype message =
    PleaseLogIn
  | PricesNotFetched "string list"
  | SymbolAndCategoryRequired
  | MustBePositiveNumbers
  | SymbolNotVerified string
  | Added real string
  | InvestmentNotFound
  | InvestmentUpdated
  | Deleted string
  | NoFileSelected
  | Imported nat
  | ErrorImporting error

datatype body =
    Redirect page
  | DashboardView template_context
  | AddForm
  | EditForm investment
  | CsvAttachment "string list list"
  | ServerError error

text \<open>A response is the messages flashed while handling the request and what is sent.\<close>

type_synonym response = "message list \<times> body"

definition require_login ::
  "nat option \<Rightarrow> (nat \<Rightarrow> db \<Rightarrow> response \<times> db) \<Rightarrow> db \<Rightarrow> response \<times> db" where
  \<comment> \<open>The session holds \<open>user_id\<close> or nothing.\<close>
  "require_login session f d =
     (case session of
        None \<Rightarrow> (([PleaseLogIn], Redirect LoginPage), d)
      | Some user \<Rightarrow> f user d)"

definition form_get :: "(string \<rightharpoonup> string) \<Rightarrow> string \<Rightarrow> string" where
  \<comment> \<open>\<open>request.form.get(key, "")\<close>\<close>
  "form_get form key = (case form key of None \<Rightarrow> [] | Some v \<Rightarrow> v)"

section \<open>The handlers\<close>

definition dashboard :: "(string \<Rightarrow> real option) \<Rightarrow> nat option \<Rightarrow> db \<Rightarrow> response \<times> db" where
  "dashboard glp session =
     require_login session (\<lambda>user d.
       (let conn = get_db d;
            hs = select_dashboard user conn;
            d' = close conn
        in case valuate glp hs of
             Inl e \<Rightarrow> (([], ServerError e), d')
           | Inr s \<Rightarrow>
               ((if failed_symbols (pass s) \<noteq> [] then [PricesNotFetched (failed_symbols (pass s))]
                 else [],
                 DashboardView (present s)), d')))"

definition add_investment ::
  "(string \<Rightarrow> real option) \<Rightarrow> (string \<Rightarrow> real option) \<Rightarrow> string \<Rightarrow> nat option \<Rightarrow>
   http_method \<Rightarrow> (string \<rightharpoonup> string) \<Rightarrow> db \<Rightarrow> response \<times> db" where
  "add_investment parse glp now session method form =
     require_login session (\<lambda>user d.
       if method = POST then
         (let symbol = py_upper (py_strip (form_get form ''symbol''));
              category = py_strip (form_get form ''category'')
          in if symbol = [] \<or> category = []
             then (([SymbolAndCategoryRequired], Redirect AddInvestmentPage), d)
             else
               (case positive_numbers parse (form_get form ''quantity'')
                       (form_get form ''buy_price'') of
                  Inl e \<Rightarrow> (([MustBePositiveNumbers], Redirect AddInvestmentPage), d)
                | Inr (quantity, buy_price) \<Rightarrow>
                    (let warn = (case glp symbol of None \<Rightarrow> [SymbolNotVerified symbol]
                                 | Some _ \<Rightarrow> []);
                         conn = get_db d;
                         conn1 = insert_investment now user symbol category quantity buy_price conn;
                         conn2 = insert_transaction now user symbol ''BUY'' quantity buy_price conn1;
                         conn3 = commit conn2
                     in ((warn @ [Added quantity symbol], Redirect DashboardPage),
                         close conn3))))
       else (([], AddForm), d))"

definition edit_investment ::
  "(string \<Rightarrow> real option) \<Rightarrow> nat option \<Rightarrow> http_method \<Rightarrow> (string \<rightharpoonup> string) \<Rightarrow> nat \<Rightarrow>
   db \<Rightarrow> response \<times> db" where
  "edit_investment parse session method form i =
     require_login session (\<lambda>user d.
       (let conn = get_db d
        in case select_investment i user conn of
             None \<Rightarrow> (([InvestmentNotFound], Redirect DashboardPage), close conn)
           | Some investment \<Rightarrow>
               if method = POST then
                 (case positive_numbers parse (form_get form ''quantity'')
                         (form_get form ''buy_price'') of
                    Inl e \<Rightarrow>
                      (([MustBePositiveNumbers], Redirect (EditInvestmentPage i)), close conn)
                  | Inr (quantity, buy_price) \<Rightarrow>
                      (let conn1 = update_investment quantity buy_price i conn;
                           conn2 = commit conn1
                       in (([InvestmentUpdated], Redirect DashboardPage), close conn2)))
               else (([], EditForm investment), close conn)))"

definition delete_investment :: "string \<Rightarrow> nat option \<Rightarrow> nat \<Rightarrow> db \<Rightarrow> response \<times> db" where
  "delete_investment now session i =
     require_login session (\<lambda>user d.
       (let conn = get_db d
        in case select_investment i user conn of
             Some investment \<Rightarrow>
               (let conn1 = insert_transaction now user (inv_symbol investment) ''SELL''
                              (inv_quantity investment) (inv_buy_price investment) conn;
                    conn2 = delete_investment_row i user conn1;
                    conn3 = commit conn2
                in (([Deleted (inv_symbol investment)], Redirect DashboardPage), close conn3))
           | None \<Rightarrow> (([InvestmentNotFound], Redirect DashboardPage), close conn)))"

section \<open>CSV export and import\<close>

text \<open>
  A CSV file is kept as its records, each a list of fields: what \<open>csv.writer\<close> is given
  row by row and what \<open>csv.reader\<close> yields line by line. The quoting of the text between
  the two is the library's and is not modelled.
\<close>

definition export_csv :: "(real \<Rightarrow> string) \<Rightarrow> nat option \<Rightarrow> db \<Rightarrow> response \<times> db" where
  "export_csv str_of session =
     require_login session (\<lambda>user d.
       (let conn = get_db d;
            rows = select_export user conn;
            d' = close conn
        in (([], CsvAttachment
               ([''symbol'', ''category'', ''quantity'', ''buy_price'', ''purchase_date''] #
                map (\<lambda>r. [inv_symbol r, inv_category r, str_of (inv_quantity r),
                           str_of (inv_buy_price r), inv_purchase_date r]) rows)),
            d')))"

text \<open>
  \<open>csv.DictReader\<close>: the first record is the list of field names; an empty record is
  passed over; a record becomes the dictionary of its fields by name, a later field of
  the same name winning, and a name the record is too short for is \<open>None\<close>. A dictionary
  value is thus a text or \<open>None\<close>; fields beyond the names go under the key \<open>None\<close>, which
  no lookup by name reaches.
\<close>

type_synonym csv_dict = "string \<rightharpoonup> string option"

definition dict_row :: "string list \<Rightarrow> string list \<Rightarrow> csv_dict" where
  "dict_row fieldnames record =
     map_of (rev (zip fieldnames
                    (map Some record @ replicate (length fieldnames - length record) None)))"

definition dict_reader :: "string list list \<Rightarrow> csv_dict list" where
  "dict_reader records =
     (case records of
        [] \<Rightarrow> []
      | fieldnames # rest \<Rightarrow> map (dict_row fieldnames) (filter (\<lambda>r. r \<noteq> []) rest))"

definition truthy :: "string option option \<Rightarrow> bool" where
  \<comment> \<open>\<open>row.get("symbol")\<close> is true unless the key is absent, or its value \<open>None\<close> or empty.\<close>
  "truthy v = (case v of Some (Some s) \<Rightarrow> s \<noteq> [] | _ \<Rightarrow> False)"

definition float_field :: "(string \<Rightarrow> real option) \<Rightarrow> csv_dict \<Rightarrow> string \<Rightarrow> error + real" where
  \<comment> \<open>\<open>float(row.get(key, 0))\<close>\<close>
  "float_field parse row key =
     (case row key of None \<Rightarrow> Inr 0 | Some v \<Rightarrow> py_float parse v)"

definition category_field :: "csv_dict \<Rightarrow> error + string" where
  \<comment> \<open>\<open>row.get("category", "Other").strip()\<close>\<close>
  "category_field row =
     (case row ''category'' of
        None \<Rightarrow> Inr (py_strip ''Other'')
      | Some None \<Rightarrow> Inl AttributeError
      | Some (Some s) \<Rightarrow> Inr (py_strip s))"

definition import_row ::
  "(string \<Rightarrow> real option) \<Rightarrow> string \<Rightarrow> nat \<Rightarrow> conn \<Rightarrow> csv_dict \<Rightarrow> error + conn option" where
  \<comment> \<open>One iteration of the loop: \<open>Inr None\<close> is \<open>continue\<close>, \<open>Inr (Some c)\<close> an insertion.\<close>
  "import_row parse now user c row =
     (if \<not> truthy (row ''symbol'') then Inr None
      else
        (case float_field parse row ''quantity'' of
           Inl e \<Rightarrow> Inl e
         | Inr quantity \<Rightarrow>
             (case float_field parse row ''buy_price'' of
                Inl e \<Rightarrow> Inl e
              | Inr buy_price \<Rightarrow>
                  if quantity \<le> 0 \<or> buy_price \<le> 0 then Inr None
                  else
                    (case row ''symbol'' of
                       Some (Some s) \<Rightarrow>
                         (case category_field row of
                            Inl e \<Rightarrow> Inl e
                          | Inr category \<Rightarrow>
                              Inr (Some (insert_investment now user (py_upper (py_strip s))
                                           category quantity buy_price c)))
                     | _ \<Rightarrow> Inl TypeError))))"

fun import_loop ::
  "(string \<Rightarrow> real option) \<Rightarrow> string \<Rightarrow> nat \<Rightarrow> conn \<Rightarrow> nat \<Rightarrow> csv_dict list \<Rightarrow>
   error \<times> conn + conn \<times> nat" where
  "import_loop parse now user c imported [] = Inr (c, imported)"
| "import_loop parse now user c imported (row # rows) =
     (case import_row parse now user c row of
        Inl e \<Rightarrow> Inl (e, c)
      | Inr None \<Rightarrow> import_loop parse now user c imported rows
      | Inr (Some c') \<Rightarrow> import_loop parse now user c' (imported + 1) rows)"

text \<open>
  An exception leaves the loop before \<open>conn.commit()\<close>; the handler catches it, flashes
  the error and returns, and the connection is dropped with its insertions uncommitted.
\<close>

definition import_csv ::
  "(string \<Rightarrow> real option) \<Rightarrow> string \<Rightarrow> nat option \<Rightarrow> string list list option \<Rightarrow> db \<Rightarrow>
   response \<times> db" where
  "import_csv parse now session file =
     require_login session (\<lambda>user d.
       (case file of
          None \<Rightarrow> (([NoFileSelected], Redirect DashboardPage), d)
        | Some records \<Rightarrow>
            (let reader = dict_reader records;
                 conn = get_db d
             in case import_loop parse now user conn 0 reader of
                  Inr (conn', imported) \<Rightarrow>
                    (([Imported imported], Redirect DashboardPage), close (commit conn'))
                | Inl (e, conn') \<Rightarrow>
                    (([ErrorImporting e], Redirect DashboardPage), close conn'))))"

section \<open>Reading a portfolio\<close>

definition holdings_of :: "nat \<Rightarrow> db \<Rightarrow> (string \<times> string \<times> real \<times> real) list" where
  \<comment> \<open>The (symbol, category, quantity, buy_price) tuples of a user's investments.\<close>
  "holdings_of user d =
     map (\<lambda>r. (inv_symbol r, inv_category r, inv_quantity r, inv_buy_price r))
         (filter (\<lambda>r. inv_user_id r = user) (investments d))"

section \<open>Descriptions used in the statements\<close>

definition price_of :: "(string \<Rightarrow> real option) \<Rightarrow> investment \<Rightarrow> real" where
  \<comment> \<open>The price the pass uses for a holding: the fetched one, or 0.0 after a failed lookup.\<close>
  "price_of glp h = (case glp (inv_symbol h) of None \<Rightarrow> 0 | Some p \<Rightarrow> p)"

definition row_of :: "(string \<Rightarrow> real option) \<Rightarrow> investment \<Rightarrow> valuation_row" where
  "row_of glp h =
     \<lparr>row_id = inv_id h,
      row_symbol = inv_symbol h,
      row_category = inv_category h,
      row_quantity = inv_quantity h,
      row_buy_price = inv_buy_price h,
      row_current_price = py_round2 (price_of glp h),
      row_value = py_round2 (inv_quantity h * price_of glp h),
      row_profit_loss =
        py_round2 (inv_quantity h * price_of glp h - inv_quantity h * inv_buy_price h),
      row_pct_return =
        py_round2 (if inv_buy_price h > 0
                   then (price_of glp h - inv_buy_price h) / inv_buy_price h * 100
                   else 0),
      row_purchase_date = inv_purchase_date h\<rparr>"

section \<open>Sample portfolios\<close>

definition aapl :: investment where
  "aapl = \<lparr>inv_id = 1, inv_user_id = 1, inv_symbol = ''AAPL'', inv_category = ''Stock'',
           inv_quantity = 10, inv_buy_price = 100, inv_purchase_date = ''2024-01-01 00:00:00''\<rparr>"

definition gift :: investment where
  "gift = \<lparr>inv_id = 2, inv_user_id = 1, inv_symbol = ''ZZZZ'', inv_category = ''Other'',
           inv_quantity = 5, inv_buy_price = 0, inv_purchase_date = ''2024-01-02 00:00:00''\<rparr>"

definition aapl_only :: "string \<Rightarrow> real option" where
  "aapl_only s = (if s = ''AAPL'' then Some 150 else None)"

definition penny_a :: investment where
  "penny_a = \<lparr>inv_id = 1, inv_user_id = 1, inv_symbol = ''AAA'', inv_category = ''Crypto'',
              inv_quantity = 1, inv_buy_price = 1, inv_purchase_date = ''2024-01-01 00:00:00''\<rparr>"

definition penny_b :: investment where
  "penny_b = \<lparr>inv_id = 2, inv_user_id = 1, inv_symbol = ''BBB'', inv_category = ''Stock'',
              inv_quantity = 1, inv_buy_price = 1, inv_purchase_date = ''2024-01-01 00:00:00''\<rparr>"

definition penny_prices :: "string \<Rightarrow> real option" where
  "penny_prices s = Some (4 / 1000)"

definition penny_summary :: portfolio_summary where
  "penny_summary =
     \<lparr>pass =
        \<lparr>total_value = 8 / 1000, total_cost = 2,
         updated_investments =
           [\<lparr>row_id = 1, row_symbol = ''AAA'', row_category = ''Crypto'', row_quantity = 1,
             row_buy_price = 1, row_current_price = 0, row_value = 0, row_profit_loss = -1,
             row_pct_return = - (996 / 10), row_purchase_date = ''2024-01-01 00:00:00''\<rparr>,
            \<lparr>row_id = 2, row_symbol = ''BBB'', row_category = ''Stock'', row_quantity = 1,
             row_buy_price = 1, row_current_price = 0, row_value = 0, row_profit_loss = -1,
             row_pct_return = - (996 / 10), row_purchase_date = ''2024-01-01 00:00:00''\<rparr>],
         failed_symbols = []\<rparr>,
      total_profit_loss = 8 / 1000 - 2,
      total_return_pct = (8 / 1000 - 2) / 2 * 100,
      category_totals = [(''Crypto'', 0), (''Stock'', 0)]\<rparr>"

section \<open>Descriptions and samples for the store and the CSV import\<close>

definition tsla :: investment where
  "tsla = \<lparr>inv_id = 3, inv_user_id = 2, inv_symbol = ''TSLA'', inv_category = ''Stock'',
           inv_quantity = 5, inv_buy_price = 20, inv_purchase_date = ''2024-02-01 00:00:00''\<rparr>"

definition sample_db :: db where
  "sample_db = \<lparr>investments = [aapl, tsla], transactions = [],
                investments_seq = 3, transactions_seq = 0\<rparr>"

definition float_sample :: "string \<Rightarrow> real option" where
  \<comment> \<open>Python's \<open>float\<close> on the texts used in the examples; \<open>float("abc")\<close> raises.\<close>
  "float_sample s =
     (if s = ''5'' \<or> s = ''5.0'' then Some 5
      else if s = ''10'' \<or> s = ''10.0'' then Some 10
      else if s = ''7.5'' then Some (15 / 2)
      else if s = ''120'' then Some 120
      else if s = ''-1'' then Some (- 1)
      else None)"

definition edit_form :: "string \<rightharpoonup> string" where
  "edit_form = [''quantity'' \<mapsto> ''7.5'', ''buy_price'' \<mapsto> ''120'']"

definition add_form :: "string \<rightharpoonup> string" where
  "add_form = [''symbol'' \<mapsto> '' msft '', ''category'' \<mapsto> ''Tech'',
               ''quantity'' \<mapsto> ''5'', ''buy_price'' \<mapsto> ''10'']"

definition field_number :: "(string \<Rightarrow> real option) \<Rightarrow> csv_dict \<Rightarrow> string \<Rightarrow> real option" where
  \<comment> \<open>The number a field reads as: 0 when the column is absent, nothing when the value is
      \<open>None\<close> or a text that is not a number.\<close>
  "field_number parse row key =
     (case row key of None \<Rightarrow> Some 0 | Some None \<Rightarrow> None | Some (Some s) \<Rightarrow> parse s)"

definition symbol_text :: "csv_dict \<Rightarrow> string" where
  "symbol_text row = (case row ''symbol'' of Some (Some s) \<Rightarrow> s | _ \<Rightarrow> [])"

definition row_accepted :: "(string \<Rightarrow> real option) \<Rightarrow> csv_dict \<Rightarrow> bool" where
  \<comment> \<open>The row has a symbol and both numbers are positive.\<close>
  "row_accepted parse row =
     (symbol_text row \<noteq> [] \<and>
      (case field_number parse row ''quantity'' of
         None \<Rightarrow> False
       | Some q \<Rightarrow>
           (case field_number parse row ''buy_price'' of
              None \<Rightarrow> False
            | Some b \<Rightarrow> 0 < q \<and> 0 < b)))"

definition row_readable :: "(string \<Rightarrow> real option) \<Rightarrow> csv_dict \<Rightarrow> bool" where
  \<comment> \<open>The row has no symbol, or both numbers can be read and, if the row is accepted, its
      category is not \<open>None\<close>.\<close>
  "row_readable parse row =
     (symbol_text row = [] \<or>
      (field_number parse row ''quantity'' \<noteq> None \<and>
       field_number parse row ''buy_price'' \<noteq> None \<and>
       (\<not> row_accepted parse row \<or> row ''category'' \<noteq> Some None)))"

definition new_investment ::
  "(string \<Rightarrow> real option) \<Rightarrow> string \<Rightarrow> nat \<Rightarrow> nat \<Rightarrow> csv_dict \<Rightarrow> investment" where
  "new_investment parse now user n row =
     \<lparr>inv_id = n, inv_user_id = user,
      inv_symbol = py_upper (py_strip (symbol_text row)),
      inv_category = (case row ''category'' of Some (Some s) \<Rightarrow> py_strip s | _ \<Rightarrow> ''Other''),
      inv_quantity = (case field_number parse row ''quantity'' of Some q \<Rightarrow> q | None \<Rightarrow> 0),
      inv_buy_price = (case field_number parse row ''buy_price'' of Some b \<Rightarrow> b | None \<Rightarrow> 0),
      inv_purchase_date = now\<rparr>"

fun new_investments ::
  "(string \<Rightarrow> real option) \<Rightarrow> string \<Rightarrow> nat \<Rightarrow> nat \<Rightarrow> csv_dict list \<Rightarrow> investment list" where
  "new_investments parse now user n [] = []"
| "new_investments parse now user n (row # rows) =
     new_investment parse now user (Suc n) row # new_investments parse now user (Suc n) rows"

definition append_investments :: "investment list \<Rightarrow> conn \<Rightarrow> conn" where
  "append_investments rs c =
     c\<lparr>uncommitted :=
         (uncommitted c)\<lparr>investments := investments (uncommitted c) @ rs,
                          investments_seq := investments_seq (uncommitted c) + length rs\<rparr>\<rparr>"

definition header4 :: "string list" where
  "header4 = [''symbol'', ''category'', ''quantity'', ''buy_price'']"

definition mixed_file :: "string list list" where
  "mixed_file =
     [header4,
      ['''', ''Other'', ''5'', ''10''],
      [''AAPL'', ''Stock'', ''-1'', ''10''],
      [''aapl'', '' Stock '', ''5'', ''10'']]"

definition broken_file :: "string list list" where
  "broken_file =
     [header4,
      [''AAPL'', ''Stock'', ''5'', ''10''],
      [''MSFT'', ''Stock'', ''abc'', ''10'']]"

definition broken_middle_file :: "string list list" where
  "broken_middle_file =
     [header4,
      [''AAPL'', ''Stock'', ''5'', ''10''],
      [''MSFT'', ''Stock'', ''5'', ''abc''],
      [''TSLA'', ''Stock'', ''5'', ''10'']]"

definition blank_symbol_file :: "string list list" where
  "blank_symbol_file = [header4, [''  '', ''Stock'', ''5'', ''10'']]"

definition empty_db :: db where
  "empty_db = \<lparr>investments = [], transactions = [], investments_seq = 0, transactions_seq = 0\<rparr>"

definition blank_symbol_db :: db where
  "blank_symbol_db =
     \<lparr>investments =
        [\<lparr>inv_id = 1, inv_user_id = 1, inv_symbol = [], inv_category = ''Stock'',
          inv_quantity = 5, inv_buy_price = 10, inv_purchase_date = ''2024-03-01 12:00:00''\<rparr>],
      transactions = [], investments_seq = 1, transactions_seq = 0\<rparr>"

definition blank_symbol_export :: "string list list" where
  "blank_symbol_export =
     [[''symbol'', ''category'', ''quantity'', ''buy_price'', ''purchase_date''],
      ['''', ''Stock'', ''5.0'', ''10.0'', ''2024-03-01 12:00:00'']]"

definition str_sample :: "real \<Rightarrow> string" where
  \<comment> \<open>Python's \<open>str\<close> on the floats used in the examples.\<close>
  "str_sample x = (if x = 5 then ''5.0'' else if x = 10 then ''10.0'' else ''?'')"

definition unparseable :: "(string \<Rightarrow> real option) \<Rightarrow> csv_dict \<Rightarrow> string \<Rightarrow> bool" where
  \<comment> \<open>The field is present and its text is not a number.\<close>
  "unparseable parse row key = (case row key of Some (Some s) \<Rightarrow> parse s = None | _ \<Rightarrow> False)"

definition exportable :: "(string \<Rightarrow> real option) \<Rightarrow> (real \<Rightarrow> string) \<Rightarrow> investment \<Rightarrow> bool" where
  \<comment> \<open>What \<open>add_investment\<close> guarantees of a row it stores, and that \<open>float\<close> reads back what
      \<open>str\<close> wrote.\<close>
  "exportable parse str_of r =
     (inv_symbol r \<noteq> [] \<and>
      py_upper (py_strip (inv_symbol r)) = inv_symbol r \<and>
      py_strip (inv_category r) = inv_category r \<and>
      0 < inv_quantity r \<and> 0 < inv_buy_price r \<and>
      parse (str_of (inv_quantity r)) = Some (inv_quantity r) \<and>
      parse (str_of (inv_buy_price r)) = Some (inv_buy_price r))"

definition export_record :: "(real \<Rightarrow> string) \<Rightarrow> investment \<Rightarrow> string list" where
  "export_record str_of r =
     [inv_symbol r, inv_category r, str_of (inv_quantity r), str_of (inv_buy_price r),
      inv_purchase_date r]"

definition header5 :: "string list" where
  "header5 = [''symbol'', ''category'', ''quantity'', ''buy_price'', ''purchase_date'']"

section \<open>Facts about the valuation pass\<close>

lemma guarded_pct_eq: "guarded_pct num den = Inr (if den > 0 then num / den * 100 else 0)"
  by (simp add: guarded_pct_def py_div_def)

lemma holding_metrics_eq:
  "holding_metrics q b p =
     Inr \<lparr>current_value = q * p, cost = q * b, profit_loss = q * p - q * b,
          pct_return = (if b > 0 then (p - b) / b * 100 else 0)\<rparr>"
  by (simp add: holding_metrics_def guarded_pct_eq Let_def)

lemma valuation_step_eq:
  "valuation_step glp st h =
     Inr \<lparr>total_value = total_value st + inv_quantity h * price_of glp h,
          total_cost = total_cost st + inv_quantity h * inv_buy_price h,
          updated_investments = updated_investments st @ [row_of glp h],
          failed_symbols = failed_symbols st @
            (if glp (inv_symbol h) = None then [inv_symbol h] else [])\<rparr>"
  by (simp add: valuation_step_def holding_metrics_eq Let_def price_of_def row_of_def
      split: option.split)

lemma valuation_loop_eq:
  "valuation_loop glp st hs =
     Inr \<lparr>total_value = total_value st + (\<Sum>h\<leftarrow>hs. inv_quantity h * price_of glp h),
          total_cost = total_cost st + (\<Sum>h\<leftarrow>hs. inv_quantity h * inv_buy_price h),
          updated_investments = updated_investments st @ map (row_of glp) hs,
          failed_symbols = failed_symbols st @
            map inv_symbol (filter (\<lambda>h. glp (inv_symbol h) = None) hs)\<rparr>"
proof (induction hs arbitrary: st)
  case Nil
  show ?case by simp
next
  case (Cons h hs)
  show ?case
    by (simp add: valuation_step_eq Cons.IH add.assoc)
qed

lemma valuate_eq:
  "valuate glp hs =
     Inr \<lparr>pass =
            \<lparr>total_value = (\<Sum>h\<leftarrow>hs. inv_quantity h * price_of glp h),
             total_cost = (\<Sum>h\<leftarrow>hs. inv_quantity h * inv_buy_price h),
             updated_investments = map (row_of glp) hs,
             failed_symbols = map inv_symbol (filter (\<lambda>h. glp (inv_symbol h) = None) hs)\<rparr>,
          total_profit_loss =
            (\<Sum>h\<leftarrow>hs. inv_quantity h * price_of glp h) -
            (\<Sum>h\<leftarrow>hs. inv_quantity h * inv_buy_price h),
          total_return_pct =
            (if (\<Sum>h\<leftarrow>hs. inv_quantity h * inv_buy_price h) > 0
             then ((\<Sum>h\<leftarrow>hs. inv_quantity h * price_of glp h) -
                   (\<Sum>h\<leftarrow>hs. inv_quantity h * inv_buy_price h)) /
                  (\<Sum>h\<leftarrow>hs. inv_quantity h * inv_buy_price h) * 100
             else 0),
          category_totals = category_loop [] (map (row_of glp) hs)\<rparr>"
  by (simp add: valuate_def valuation_loop_eq guarded_pct_eq)

section \<open>Claims about the valuation pass\<close>

text \<open>
  C1: for every holding of the valuation pass, with live price P (0.0 after a failed
  lookup), quantity Q and buy price B, the iteration computes value = Q * P, cost = Q * B and
  profit_loss = value - cost before rounding, exactly and so within any tolerance; the row
  stores these values rounded to two decimals. The pass returns for every input.
\<close>

theorem C1_row_arithmetic:
  assumes "i < length hs"
  shows "\<exists>s m. valuate glp hs = Inr s \<and>
           holding_metrics (inv_quantity (hs ! i)) (inv_buy_price (hs ! i)) (price_of glp (hs ! i)) = Inr m \<and>
           current_value m = inv_quantity (hs ! i) * price_of glp (hs ! i) \<and>
           cost m = inv_quantity (hs ! i) * inv_buy_price (hs ! i) \<and>
           profit_loss m = current_value m - cost m \<and>
           row_value (updated_investments (pass s) ! i) = py_round2 (current_value m) \<and>
           row_profit_loss (updated_investments (pass s) ! i) = py_round2 (profit_loss m)"
  using assms by (simp add: valuate_eq holding_metrics_eq row_of_def)

theorem C1_row_arithmetic_witness:
  "(0::nat) < length [aapl] \<and>
   (\<exists>s m. valuate aapl_only [aapl] = Inr s \<and>
      holding_metrics 10 100 150 = Inr m \<and>
      current_value m = 1500 \<and> cost m = 1000 \<and> profit_loss m = 500 \<and>
      row_value (updated_investments (pass s) ! 0) = 1500 \<and>
      row_profit_loss (updated_investments (pass s) ! 0) = 500)"
  using C1_row_arithmetic [of 0 "[aapl]" aapl_only]
  by (simp add: aapl_def aapl_only_def price_of_def holding_metrics_eq valuate_eq row_of_def py_round2_def round_half_even_def Let_def)

text \<open>
  C2: for every sequence of holdings, after the pass total_value is the sum of the
  holdings' unrounded values, total_cost the sum of their costs, total_profit_loss is
  total_value - total_cost, and total_return_pct is (total_value - total_cost) / total_cost * 100
  when total_cost > 0 and 0 otherwise; the empty portfolio gives 0 and no division fault.
\<close>

theorem C2_totals:
  "\<exists>s. valuate glp hs = Inr s \<and>
       total_value (pass s) = (\<Sum>h\<leftarrow>hs. inv_quantity h * price_of glp h) \<and>
       total_cost (pass s) = (\<Sum>h\<leftarrow>hs. inv_quantity h * inv_buy_price h) \<and>
       total_profit_loss s = total_value (pass s) - total_cost (pass s) \<and>
       total_return_pct s =
         (if total_cost (pass s) > 0
          then (total_value (pass s) - total_cost (pass s)) / total_cost (pass s) * 100
          else 0) \<and>
       (hs = [] \<longrightarrow> total_return_pct s = 0)"
  by (simp add: valuate_eq)

theorem C2_totals_witness:
  "\<exists>s. valuate aapl_only [] = Inr s \<and>
       total_value (pass s) = 0 \<and> total_cost (pass s) = 0 \<and>
       total_profit_loss s = 0 \<and> total_return_pct s = 0"
  using C2_totals [of aapl_only "[]"] by auto

text \<open>
  C3: the valuation returns for every input and keeps one row per holding. A holding whose
  lookup fails is valued at price 0.0: its symbol is in \<open>failed_symbols\<close>, its row has value 0 and
  profit_loss = -cost, and it still counts in \<open>total_value\<close> (with 0) and in \<open>total_cost\<close>.
\<close>

theorem C3_failed_lookup:
  "\<exists>s. valuate glp hs = Inr s \<and>
       length (updated_investments (pass s)) = length hs \<and>
       total_value (pass s) = (\<Sum>h\<leftarrow>hs. inv_quantity h * price_of glp h) \<and>
       total_cost (pass s) = (\<Sum>h\<leftarrow>hs. inv_quantity h * inv_buy_price h) \<and>
       failed_symbols (pass s) =
         map inv_symbol (filter (\<lambda>h. glp (inv_symbol h) = None) hs) \<and>
       (\<forall>i<length hs. glp (inv_symbol (hs ! i)) = None \<longrightarrow>
          price_of glp (hs ! i) = 0 \<and>
          inv_symbol (hs ! i) \<in> set (failed_symbols (pass s)) \<and>
          row_symbol (updated_investments (pass s) ! i) = inv_symbol (hs ! i) \<and>
          row_current_price (updated_investments (pass s) ! i) = 0 \<and>
          row_value (updated_investments (pass s) ! i) = 0 \<and>
          row_profit_loss (updated_investments (pass s) ! i) =
            py_round2 (- (inv_quantity (hs ! i) * inv_buy_price (hs ! i))) \<and>
          (\<exists>m. holding_metrics (inv_quantity (hs ! i)) (inv_buy_price (hs ! i)) 0 = Inr m \<and>
               current_value m = 0 \<and> profit_loss m = - cost m))"
proof -
  have r0: "py_round2 0 = 0"
    by (simp add: py_round2_def round_half_even_def)
  show ?thesis
    by (auto simp add: valuate_eq holding_metrics_eq row_of_def price_of_def r0)
qed

theorem C3_failed_lookup_witness:
  "\<exists>s. valuate aapl_only [aapl, gift] = Inr s \<and>
       (1::nat) < length [aapl, gift] \<and> aapl_only (inv_symbol ([aapl, gift] ! 1)) = None \<and>
       length (updated_investments (pass s)) = 2 \<and>
       total_value (pass s) = 1500 \<and>
       failed_symbols (pass s) = [''ZZZZ''] \<and>
       row_value (updated_investments (pass s) ! 1) = 0"
  using C3_failed_lookup [of aapl_only "[aapl, gift]"]
  by (auto simp add: aapl_def gift_def aapl_only_def price_of_def)

text \<open>
  C4: for every holding, pct_return is (P - buy_price) / buy_price * 100 when buy_price > 0,
  and 0 when buy_price is 0; no input makes the pass fail on the division.
\<close>

theorem C4_pct_return:
  "\<exists>s. valuate glp hs = Inr s \<and>
       (\<forall>i<length hs.
          \<exists>m. holding_metrics (inv_quantity (hs ! i)) (inv_buy_price (hs ! i))
                 (price_of glp (hs ! i)) = Inr m \<and>
              (inv_buy_price (hs ! i) > 0 \<longrightarrow>
                 pct_return m =
                   (price_of glp (hs ! i) - inv_buy_price (hs ! i)) / inv_buy_price (hs ! i) * 100) \<and>
              (inv_buy_price (hs ! i) = 0 \<longrightarrow> pct_return m = 0) \<and>
              row_pct_return (updated_investments (pass s) ! i) = py_round2 (pct_return m))"
  by (simp add: valuate_eq holding_metrics_eq row_of_def)

theorem C4_pct_return_witness:
  "\<exists>s. valuate aapl_only [aapl, gift] = Inr s \<and>
       (0::nat) < length [aapl, gift] \<and> inv_buy_price ([aapl, gift] ! 0) > 0 \<and>
       (1::nat) < length [aapl, gift] \<and> inv_buy_price ([aapl, gift] ! 1) = 0 \<and>
       row_pct_return (updated_investments (pass s) ! 0) = 50 \<and>
       row_pct_return (updated_investments (pass s) ! 1) = 0"
proof -
  obtain s where v: "valuate aapl_only [aapl, gift] = Inr s"
    and rows: "\<forall>i<length [aapl, gift].
          \<exists>m. holding_metrics (inv_quantity ([aapl, gift] ! i)) (inv_buy_price ([aapl, gift] ! i))
                 (price_of aapl_only ([aapl, gift] ! i)) = Inr m \<and>
              (inv_buy_price ([aapl, gift] ! i) > 0 \<longrightarrow>
                 pct_return m =
                   (price_of aapl_only ([aapl, gift] ! i) - inv_buy_price ([aapl, gift] ! i)) /
                   inv_buy_price ([aapl, gift] ! i) * 100) \<and>
              (inv_buy_price ([aapl, gift] ! i) = 0 \<longrightarrow> pct_return m = 0) \<and>
              row_pct_return (updated_investments (pass s) ! i) = py_round2 (pct_return m)"
    using C4_pct_return [of aapl_only "[aapl, gift]"] by blast
  have r50: "py_round2 50 = 50" and r0: "py_round2 0 = 0"
    by (simp_all add: py_round2_def round_half_even_def)
  from rows [rule_format, of 0]
  have a: "row_pct_return (updated_investments (pass s) ! 0) = 50"
    by (auto simp add: aapl_def aapl_only_def price_of_def r50)
  from rows [rule_format, of 1]
  have b: "row_pct_return (updated_investments (pass s) ! 1) = 0"
    by (auto simp add: gift_def r0)
  from v a b show ?thesis
    by (simp add: aapl_def gift_def)
qed

lemma sum_add_to_bucket:
  "sum_list (map snd (add_to_bucket k v kts)) = sum_list (map snd kts) + v"
  by (induction kts) auto

lemma sum_category_loop:
  "sum_list (map snd (category_loop totals rs)) =
     sum_list (map snd totals) + sum_list (map row_value rs)"
  by (induction rs arbitrary: totals) (simp_all add: sum_add_to_bucket)

lemma keys_add_to_bucket:
  "map fst (add_to_bucket k v kts) = (if k \<in> fst ` set kts then map fst kts else map fst kts @ [k])"
  by (induction kts) force+

lemma distinct_add_to_bucket:
  "distinct (map fst kts) \<Longrightarrow> distinct (map fst (add_to_bucket k v kts))"
  by (simp add: keys_add_to_bucket)

lemma map_of_add_to_bucket:
  "map_of (add_to_bucket k v kts) c =
     (if c = k then Some ((case map_of kts k of None \<Rightarrow> 0 | Some t \<Rightarrow> t) + v)
      else map_of kts c)"
  by (induction kts) auto

lemma map_of_category_loop:
  "map_of (category_loop totals rs) c =
     (if map_of totals c = None \<and> c \<notin> row_category ` set rs then None
      else Some ((case map_of totals c of None \<Rightarrow> 0 | Some t \<Rightarrow> t) +
                 sum_list (map row_value (filter (\<lambda>r. row_category r = c) rs))))"
proof (induction rs arbitrary: totals)
  case Nil
  show ?case by (auto split: option.split)
next
  case (Cons r rs)
  show ?case
    by (auto simp add: Cons.IH map_of_add_to_bucket split: option.split)
qed

lemma distinct_category_loop:
  "distinct (map fst totals) \<Longrightarrow> distinct (map fst (category_loop totals rs))"
  by (induction rs arbitrary: totals) (simp_all add: distinct_add_to_bucket)

text \<open>
  C5, as stated, fails: two holdings worth 0.004 each give category values 0 and 0, whose
  sum is 0, while \<open>total_value\<close> is 0.008, presented as 0.01. The category loop adds the row
  values that were already rounded for display.
\<close>

theorem C5_counterexample:
  "valuate penny_prices [penny_a, penny_b] = Inr penny_summary \<and>
   sum_list (map snd (category_totals penny_summary)) = 0 \<and>
   total_value (pass penny_summary) = 8 / 1000 \<and>
   sum_list (ctx_category_values (present penny_summary)) = 0 \<and>
   ctx_total_value (present penny_summary) = 1 / 100"
  by (simp add: valuate_eq penny_a_def penny_b_def penny_prices_def penny_summary_def
      price_of_def row_of_def present_def py_round2_def round_half_even_def)

text \<open>
  C5, amended: for every sequence of holdings and any prices, each category's value is the
  sum of its rows' values as rounded to two decimals for display, so the category values sum to
  the sum of the rounded row values (in exact arithmetic), with one entry per category;
  \<open>total_value\<close> accumulates the unrounded values and is rounded only when presented.
\<close>

theorem C5_category_sum:
  "\<exists>s. valuate glp hs = Inr s \<and>
       sum_list (map snd (category_totals s)) =
         (\<Sum>h\<leftarrow>hs. py_round2 (inv_quantity h * price_of glp h)) \<and>
       distinct (map fst (category_totals s)) \<and>
       (\<forall>c. map_of (category_totals s) c =
          (if c \<in> inv_category ` set hs
           then Some (\<Sum>h\<leftarrow>filter (\<lambda>h. inv_category h = c) hs.
                        py_round2 (inv_quantity h * price_of glp h))
           else None)) \<and>
       total_value (pass s) = (\<Sum>h\<leftarrow>hs. inv_quantity h * price_of glp h) \<and>
       ctx_total_value (present s) = py_round2 (total_value (pass s)) \<and>
       ctx_category_values (present s) = map snd (category_totals s)"
proof -
  have rv: "map row_value (map (row_of glp) xs) =
              map (\<lambda>h. py_round2 (inv_quantity h * price_of glp h)) xs" for xs
    by (simp add: row_of_def)
  have rc: "row_category ` set (map (row_of glp) hs) = inv_category ` set hs"
    by (auto simp add: row_of_def image_iff)
  have fl: "filter (\<lambda>r. row_category r = c) (map (row_of glp) hs) =
              map (row_of glp) (filter (\<lambda>h. inv_category h = c) hs)" for c
    by (induction hs) (simp_all add: row_of_def)
  have s1: "sum_list (map snd (category_loop [] (map (row_of glp) hs))) =
              (\<Sum>h\<leftarrow>hs. py_round2 (inv_quantity h * price_of glp h))"
    by (simp add: sum_category_loop rv del: map_map)
  have s2: "distinct (map fst (category_loop [] (map (row_of glp) hs)))"
    by (rule distinct_category_loop) simp
  have s3: "map_of (category_loop [] (map (row_of glp) hs)) c =
          (if c \<in> inv_category ` set hs
           then Some (\<Sum>h\<leftarrow>filter (\<lambda>h. inv_category h = c) hs.
                        py_round2 (inv_quantity h * price_of glp h))
           else None)" for c
    unfolding map_of_category_loop rc fl rv by simp
  show ?thesis
    using s1 s2 s3 by (simp add: valuate_eq present_def)
qed

theorem C5_category_sum_witness:
  "\<exists>s. valuate penny_prices [penny_a, penny_b] = Inr s \<and>
       sum_list (map snd (category_totals s)) = 0 \<and>
       map_of (category_totals s) ''Crypto'' = Some 0 \<and>
       total_value (pass s) = 8 / 1000 \<and>
       ctx_total_value (present s) = 1 / 100"
proof -
  have r: "py_round2 (1 / 250) = 0" "py_round2 (1 / 125) = 1 / 100"
    by (simp_all add: py_round2_def round_half_even_def)
  obtain s where v: "valuate penny_prices [penny_a, penny_b] = Inr s"
    and sm: "sum_list (map snd (category_totals s)) =
               (\<Sum>h\<leftarrow>[penny_a, penny_b]. py_round2 (inv_quantity h * price_of penny_prices h))"
    and mp: "\<forall>c. map_of (category_totals s) c =
          (if c \<in> inv_category ` set [penny_a, penny_b]
           then Some (\<Sum>h\<leftarrow>filter (\<lambda>h. inv_category h = c) [penny_a, penny_b].
                        py_round2 (inv_quantity h * price_of penny_prices h))
           else None)"
    and tv: "total_value (pass s) = (\<Sum>h\<leftarrow>[penny_a, penny_b]. inv_quantity h * price_of penny_prices h)"
    and cv: "ctx_total_value (present s) = py_round2 (total_value (pass s))"
    using C5_category_sum [of penny_prices "[penny_a, penny_b]"] by blast
  have a: "sum_list (map snd (category_totals s)) = 0"
    using sm by (simp add: penny_a_def penny_b_def penny_prices_def price_of_def r)
  have b: "map_of (category_totals s) ''Crypto'' = Some 0"
    using mp [rule_format, of "''Crypto''"]
    by (simp add: penny_a_def penny_b_def penny_prices_def price_of_def r)
  have c: "total_value (pass s) = 1 / 125"
    using tv by (simp add: penny_a_def penny_b_def penny_prices_def price_of_def)
  have d: "ctx_total_value (present s) = 1 / 100"
    using cv c by (simp add: r)
  from v a b c d show ?thesis by simp
qed

section \<open>Claims about the store and the CSV import\<close>

lemma same_id_same_row:
  "distinct (map inv_id xs) \<Longrightarrow> x \<in> set xs \<Longrightarrow> y \<in> set xs \<Longrightarrow> inv_id x = inv_id y \<Longrightarrow> x = y"
  by (meson distinct_map inj_onD)

lemma select_investment_owned:
  assumes "distinct (map inv_id (investments d))"
    and "r \<in> set (investments d)" and "inv_id r = i" and "inv_user_id r = user"
  shows "select_investment i user (get_db d) = Some r"
proof -
  have "\<exists>x. find (\<lambda>x. inv_id x = i \<and> inv_user_id x = user) (investments d) = Some x"
    using assms(2-4) by (cases "find (\<lambda>x. inv_id x = i \<and> inv_user_id x = user) (investments d)")
      (auto simp add: find_None_iff)
  then obtain x where f: "find (\<lambda>x. inv_id x = i \<and> inv_user_id x = user) (investments d) = Some x"
    by blast
  then have "x \<in> set (investments d)" and "inv_id x = i"
    by (auto simp add: find_Some_iff)
  with assms have "x = r"
    by (auto intro: same_id_same_row)
  with f show ?thesis
    by (simp add: select_investment_def get_db_def)
qed

lemma select_investment_none:
  assumes "\<forall>r\<in>set (investments d). inv_id r = i \<longrightarrow> inv_user_id r \<noteq> user"
  shows "select_investment i user (get_db d) = None"
  using assms by (auto simp add: select_investment_def get_db_def find_None_iff)

lemma filter_owned_row:
  assumes "distinct (map inv_id xs)" and "r \<in> set xs"
  shows "filter (\<lambda>x. \<not> (inv_id x = inv_id r \<and> inv_user_id x = inv_user_id r)) xs =
         filter (\<lambda>x. x \<noteq> r) xs"
proof (rule filter_cong [OF refl])
  fix x assume "x \<in> set xs"
  with assms show "(\<not> (inv_id x = inv_id r \<and> inv_user_id x = inv_user_id r)) = (x \<noteq> r)"
    by (auto dest: same_id_same_row)
qed

text \<open>
  C6: in a store whose investment ids are distinct (they are the primary key), deleting an
  investment the user owns appends exactly one transaction of type SELL with that
  investment's symbol, quantity and buy price, and removes that row and no other; deleting an
  id that does not exist, or that belongs to another user, leaves the whole store as it was.
\<close>

theorem C6_delete:
  assumes "distinct (map inv_id (investments d))"
  shows "(\<forall>r\<in>set (investments d). inv_id r = i \<and> inv_user_id r = user \<longrightarrow>
            delete_investment now (Some user) i d =
              (([Deleted (inv_symbol r)], Redirect DashboardPage),
               d\<lparr>investments := filter (\<lambda>x. x \<noteq> r) (investments d),
                  transactions := transactions d @
                    [\<lparr>txn_id = Suc (transactions_seq d), txn_user_id = user,
                      txn_symbol = inv_symbol r, txn_type = ''SELL'',
                      txn_quantity = inv_quantity r, txn_price = inv_buy_price r,
                      txn_date = now\<rparr>],
                  transactions_seq := Suc (transactions_seq d)\<rparr>)) \<and>
         ((\<forall>r\<in>set (investments d). inv_id r = i \<longrightarrow> inv_user_id r \<noteq> user) \<longrightarrow>
            delete_investment now (Some user) i d =
              (([InvestmentNotFound], Redirect DashboardPage), d))"
proof (intro conjI ballI impI)
  fix r assume r: "r \<in> set (investments d)" and own: "inv_id r = i \<and> inv_user_id r = user"
  have "select_investment i user (get_db d) = Some r"
    using assms r own by (simp add: select_investment_owned)
  then have sel: "select_investment i user \<lparr>committed = d, uncommitted = d\<rparr> = Some r"
    by (simp add: get_db_def)
  have flt: "filter (\<lambda>x. inv_id x = i \<longrightarrow> inv_user_id x \<noteq> user) (investments d) =
             filter (\<lambda>x. x \<noteq> r) (investments d)"
    using filter_owned_row [OF assms r] own by simp
  show "delete_investment now (Some user) i d =
              (([Deleted (inv_symbol r)], Redirect DashboardPage),
               d\<lparr>investments := filter (\<lambda>x. x \<noteq> r) (investments d),
                  transactions := transactions d @
                    [\<lparr>txn_id = Suc (transactions_seq d), txn_user_id = user,
                      txn_symbol = inv_symbol r, txn_type = ''SELL'',
                      txn_quantity = inv_quantity r, txn_price = inv_buy_price r,
                      txn_date = now\<rparr>],
                  transactions_seq := Suc (transactions_seq d)\<rparr>)"
    by (simp add: delete_investment_def require_login_def sel Let_def insert_transaction_def
        delete_investment_row_def commit_def close_def get_db_def flt)
next
  assume "\<forall>r\<in>set (investments d). inv_id r = i \<longrightarrow> inv_user_id r \<noteq> user"
  then have "select_investment i user (get_db d) = None"
    by (rule select_investment_none)
  then have "select_investment i user \<lparr>committed = d, uncommitted = d\<rparr> = None"
    by (simp add: get_db_def)
  then show "delete_investment now (Some user) i d =
               (([InvestmentNotFound], Redirect DashboardPage), d)"
    by (simp add: delete_investment_def require_login_def Let_def close_def get_db_def)
qed

theorem C6_delete_witness:
  "distinct (map inv_id (investments sample_db)) \<and>
   tsla \<in> set (investments sample_db) \<and> inv_id tsla = 3 \<and> inv_user_id tsla = 2 \<and>
   delete_investment ''2024-03-01 12:00:00'' (Some 2) 3 sample_db =
     (([Deleted ''TSLA''], Redirect DashboardPage),
      \<lparr>investments = [aapl],
       transactions = [\<lparr>txn_id = 1, txn_user_id = 2, txn_symbol = ''TSLA'', txn_type = ''SELL'',
                        txn_quantity = 5, txn_price = 20, txn_date = ''2024-03-01 12:00:00''\<rparr>],
       investments_seq = 3, transactions_seq = 1\<rparr>) \<and>
   delete_investment ''2024-03-01 12:00:00'' (Some 1) 3 sample_db =
     (([InvestmentNotFound], Redirect DashboardPage), sample_db) \<and>
   delete_investment ''2024-03-01 12:00:00'' (Some 2) 9 sample_db =
     (([InvestmentNotFound], Redirect DashboardPage), sample_db)"
proof -
  have dist: "distinct (map inv_id (investments sample_db))"
    by (simp add: sample_db_def aapl_def tsla_def)
  have ne: "aapl \<noteq> tsla"
    by (simp add: aapl_def tsla_def)
  note c6 = C6_delete [OF dist]
  have a: "delete_investment ''2024-03-01 12:00:00'' (Some 2) 3 sample_db =
     (([Deleted ''TSLA''], Redirect DashboardPage),
      \<lparr>investments = [aapl],
       transactions = [\<lparr>txn_id = 1, txn_user_id = 2, txn_symbol = ''TSLA'', txn_type = ''SELL'',
                        txn_quantity = 5, txn_price = 20, txn_date = ''2024-03-01 12:00:00''\<rparr>],
       investments_seq = 3, transactions_seq = 1\<rparr>)"
    using c6 [of 3 2 "''2024-03-01 12:00:00''", THEN conjunct1, rule_format, of tsla] ne
    by (simp add: sample_db_def tsla_def)
  have b: "delete_investment ''2024-03-01 12:00:00'' (Some 1) 3 sample_db =
     (([InvestmentNotFound], Redirect DashboardPage), sample_db)"
    using c6 [of 3 1 "''2024-03-01 12:00:00''", THEN conjunct2]
    by (simp add: sample_db_def tsla_def aapl_def)
  have c: "delete_investment ''2024-03-01 12:00:00'' (Some 2) 9 sample_db =
     (([InvestmentNotFound], Redirect DashboardPage), sample_db)"
    using c6 [of 9 2 "''2024-03-01 12:00:00''", THEN conjunct2]
    by (simp add: sample_db_def tsla_def aapl_def)
  show ?thesis
    using dist a b c by (simp add: sample_db_def tsla_def aapl_def)
qed

lemma positive_numbers_ok:
  "parse qs = Some q \<Longrightarrow> parse bs = Some b \<Longrightarrow> 0 < q \<Longrightarrow> 0 < b \<Longrightarrow>
   positive_numbers parse qs bs = Inr (q, b)"
  by (simp add: positive_numbers_def py_float_def)

lemma update_owned_row:
  assumes "distinct (map inv_id xs)" and "r \<in> set xs"
  shows "map (\<lambda>x. if inv_id x = inv_id r then x\<lparr>inv_quantity := q, inv_buy_price := b\<rparr> else x) xs =
         map (\<lambda>x. if x = r then r\<lparr>inv_quantity := q, inv_buy_price := b\<rparr> else x) xs"
proof (rule map_cong [OF refl])
  fix x assume "x \<in> set xs"
  with assms show "(if inv_id x = inv_id r then x\<lparr>inv_quantity := q, inv_buy_price := b\<rparr> else x) =
                   (if x = r then r\<lparr>inv_quantity := q, inv_buy_price := b\<rparr> else x)"
    by (auto dest: same_id_same_row)
qed

lemma edit_keeps_transactions:
  "transactions (snd (edit_investment parse session method form i d)) = transactions d"
  by (simp add: edit_investment_def require_login_def Let_def get_db_def close_def commit_def
      update_investment_def split: option.split sum.split prod.split)

lemma py_strip_Other: "py_strip ''Other'' = ''Other''"
  by (simp add: py_strip_def py_isspace_def)

lemma truthy_symbol: "truthy (row ''symbol'') = (symbol_text row \<noteq> [])"
  by (simp add: truthy_def symbol_text_def split: option.split)

lemma float_field_number:
  "float_field parse row key =
     (case field_number parse row key of
        Some x \<Rightarrow> Inr x
      | None \<Rightarrow> (if row key = Some None then Inl TypeError else Inl ValueError))"
  by (simp add: float_field_def field_number_def py_float_def split: option.split)

lemma import_row_readable:
  assumes "row_readable parse row"
  shows "import_row parse now user c row =
           (if row_accepted parse row
            then Inr (Some (insert_investment now user
                              (inv_symbol (new_investment parse now user 0 row))
                              (inv_category (new_investment parse now user 0 row))
                              (inv_quantity (new_investment parse now user 0 row))
                              (inv_buy_price (new_investment parse now user 0 row)) c))
            else Inr None)"
  using assms
  by (auto simp add: import_row_def truthy_symbol float_field_number row_readable_def
      row_accepted_def new_investment_def category_field_def py_strip_Other symbol_text_def
      split: option.splits)

lemma append_investments_Nil: "append_investments [] c = c"
  by (simp add: append_investments_def)

lemma insert_then_append:
  "append_investments (new_investments parse now user (Suc (investments_seq (uncommitted c))) rows)
     (insert_investment now user
        (inv_symbol (new_investment parse now user 0 row))
        (inv_category (new_investment parse now user 0 row))
        (inv_quantity (new_investment parse now user 0 row))
        (inv_buy_price (new_investment parse now user 0 row)) c) =
   append_investments
     (new_investment parse now user (Suc (investments_seq (uncommitted c))) row #
      new_investments parse now user (Suc (investments_seq (uncommitted c))) rows) c"
  by (simp add: append_investments_def insert_investment_def Let_def new_investment_def)

lemma investments_seq_insert:
  "investments_seq (uncommitted (insert_investment now user s cat q b c)) =
     Suc (investments_seq (uncommitted c))"
  by (simp add: insert_investment_def Let_def)

lemma import_loop_readable:
  assumes "\<forall>row\<in>set rows. row_readable parse row"
  shows "import_loop parse now user c n rows =
           Inr (append_investments
                  (new_investments parse now user (investments_seq (uncommitted c))
                     (filter (row_accepted parse) rows)) c,
                n + length (filter (row_accepted parse) rows))"
  using assms
proof (induction rows arbitrary: c n)
  case Nil
  show ?case by (simp add: append_investments_Nil)
next
  case (Cons row rows)
  then have rd: "row_readable parse row" and rest: "\<forall>row\<in>set rows. row_readable parse row"
    by simp_all
  show ?case
  proof (cases "row_accepted parse row")
    case True
    then show ?thesis
      by (simp add: import_row_readable [OF rd] Cons.IH [OF rest] investments_seq_insert
          insert_then_append)
  next
    case False
    then show ?thesis
      by (simp add: import_row_readable [OF rd] Cons.IH [OF rest])
  qed
qed

lemma length_new_investments: "length (new_investments parse now user n rows) = length rows"
  by (induction rows arbitrary: n) simp_all

lemma user_new_investments:
  "filter (\<lambda>r. inv_user_id r = user) (new_investments parse now user n rows) =
     new_investments parse now user n rows"
  by (induction rows arbitrary: n) (simp_all add: new_investment_def)

lemma tuples_new_investments:
  "map (\<lambda>r. (inv_symbol r, inv_category r, inv_quantity r, inv_buy_price r))
       (new_investments parse now user n rows) =
   map (\<lambda>row. (inv_symbol (new_investment parse now user 0 row),
               inv_category (new_investment parse now user 0 row),
               inv_quantity (new_investment parse now user 0 row),
               inv_buy_price (new_investment parse now user 0 row))) rows"
  by (induction rows arbitrary: n) (simp_all add: new_investment_def)

lemma import_csv_readable:
  assumes "\<forall>row\<in>set (dict_reader records). row_readable parse row"
  shows "import_csv parse now (Some user) (Some records) d =
           (([Imported (length (filter (row_accepted parse) (dict_reader records)))],
             Redirect DashboardPage),
            d\<lparr>investments := investments d @
                 new_investments parse now user (investments_seq d)
                   (filter (row_accepted parse) (dict_reader records)),
               investments_seq := investments_seq d +
                 length (filter (row_accepted parse) (dict_reader records))\<rparr>)"
proof -
  have loop: "import_loop parse now user \<lparr>committed = d, uncommitted = d\<rparr> 0 (dict_reader records) =
           Inr (append_investments
                  (new_investments parse now user (investments_seq d)
                     (filter (row_accepted parse) (dict_reader records)))
                  \<lparr>committed = d, uncommitted = d\<rparr>,
                0 + length (filter (row_accepted parse) (dict_reader records)))"
    using import_loop_readable [OF assms, of now user "\<lparr>committed = d, uncommitted = d\<rparr>" 0]
    by simp
  show ?thesis
    by (simp add: import_csv_def require_login_def Let_def get_db_def loop append_investments_def
        commit_def close_def length_new_investments)
qed

text \<open>
  C9, amended: for every file in which each row with a symbol has quantity and buy price
  absent or readable as numbers (and a category that is not \<open>None\<close> where the row is accepted),
  the rows without symbol and the rows with a non-positive quantity or buy price are skipped,
  and every other row is inserted, in order, as a new investment of the user (symbol stripped
  and upper-cased, category stripped, \<open>Other\<close> when the column is absent), after the existing
  rows and whatever they hold; no transaction is created.
\<close>

theorem C9_import_rows:
  assumes "\<forall>row\<in>set (dict_reader records). row_readable parse row"
  shows "import_csv parse now (Some user) (Some records) d =
           (([Imported (length (filter (row_accepted parse) (dict_reader records)))],
             Redirect DashboardPage),
            d\<lparr>investments := investments d @
                 new_investments parse now user (investments_seq d)
                   (filter (row_accepted parse) (dict_reader records)),
               investments_seq := investments_seq d +
                 length (filter (row_accepted parse) (dict_reader records))\<rparr>) \<and>
         holdings_of user (snd (import_csv parse now (Some user) (Some records) d)) =
           holdings_of user d @
           map (\<lambda>row. (py_upper (py_strip (symbol_text row)),
                       (case row ''category'' of Some (Some s) \<Rightarrow> py_strip s | _ \<Rightarrow> ''Other''),
                       (case field_number parse row ''quantity'' of Some q \<Rightarrow> q | None \<Rightarrow> 0),
                       (case field_number parse row ''buy_price'' of Some b \<Rightarrow> b | None \<Rightarrow> 0)))
               (filter (row_accepted parse) (dict_reader records)) \<and>
         transactions (snd (import_csv parse now (Some user) (Some records) d)) = transactions d"
proof -
  note eq = import_csv_readable [OF assms, of now user d]
  show ?thesis
    unfolding eq
    by (simp add: holdings_of_def user_new_investments tuples_new_investments new_investment_def)
qed

lemmas eval_import =
  import_csv_def require_login_def dict_reader_def dict_row_def import_row_def truthy_def
  float_field_def py_float_def category_field_def float_sample_def insert_investment_def
  get_db_def commit_def close_def py_strip_def py_upper_def py_isspace_def upper_char_def
  header4_def Let_def

text \<open>
  C9, as stated, fails: the first row of this file has a symbol and positive numbers, but the
  second row's quantity is not a number, the import raises, and the first row is not inserted
  either.
\<close>

theorem C9_counterexample:
  "row_accepted float_sample (dict_row header4 [''AAPL'', ''Stock'', ''5'', ''10'']) \<and>
   import_csv float_sample ''2024-03-01 12:00:00'' (Some 1) (Some broken_file) sample_db =
     (([ErrorImporting ValueError], Redirect DashboardPage), sample_db)"
  by (simp add: eval_import broken_file_def row_accepted_def symbol_text_def field_number_def)

theorem C9_import_rows_witness:
  "import_csv float_sample ''2024-03-01 12:00:00'' (Some 1) (Some mixed_file) sample_db =
     (([Imported 1], Redirect DashboardPage),
      \<lparr>investments =
         [aapl, tsla,
          \<lparr>inv_id = 4, inv_user_id = 1, inv_symbol = ''AAPL'', inv_category = ''Stock'',
           inv_quantity = 5, inv_buy_price = 10, inv_purchase_date = ''2024-03-01 12:00:00''\<rparr>],
       transactions = [], investments_seq = 4, transactions_seq = 0\<rparr>)"
proof -
  have rd: "\<forall>row\<in>set (dict_reader mixed_file). row_readable float_sample row"
    by (simp add: dict_reader_def mixed_file_def dict_row_def header4_def row_readable_def
        row_accepted_def symbol_text_def field_number_def float_sample_def)
  have acc: "filter (row_accepted float_sample) (dict_reader mixed_file) =
               [dict_row header4 [''aapl'', '' Stock '', ''5'', ''10'']]"
    by (simp add: dict_reader_def mixed_file_def dict_row_def header4_def
        row_accepted_def symbol_text_def field_number_def float_sample_def)
  have new: "new_investment float_sample ''2024-03-01 12:00:00'' u n
               (dict_row header4 [''aapl'', '' Stock '', ''5'', ''10'']) =
             \<lparr>inv_id = n, inv_user_id = u, inv_symbol = ''AAPL'', inv_category = ''Stock'',
              inv_quantity = 5, inv_buy_price = 10, inv_purchase_date = ''2024-03-01 12:00:00''\<rparr>" for u n
    by (simp add: new_investment_def dict_row_def header4_def symbol_text_def field_number_def
        float_sample_def py_strip_def py_upper_def py_isspace_def upper_char_def char_of_eq_iff)
  show ?thesis
    using C9_import_rows [OF rd, of "''2024-03-01 12:00:00''" 1 sample_db, THEN conjunct1]
    by (simp add: acc new sample_db_def)
qed

lemma import_row_committed:
  "import_row parse now user c row = Inr (Some c') \<Longrightarrow> committed c' = committed c"
  by (auto simp add: import_row_def insert_investment_def Let_def
      split: if_splits sum.splits option.splits)

lemma bad_row_raises:
  assumes "symbol_text row \<noteq> []"
    and "unparseable parse row ''quantity'' \<or> unparseable parse row ''buy_price''"
  shows "\<exists>e. import_row parse now user c row = Inl e"
  using assms
  by (auto simp add: import_row_def truthy_symbol float_field_def py_float_def unparseable_def
      split: option.splits sum.splits)

lemma import_loop_bad:
  assumes "bad \<in> set rows" and "symbol_text bad \<noteq> []"
    and "unparseable parse bad ''quantity'' \<or> unparseable parse bad ''buy_price''"
  shows "\<exists>e c'. import_loop parse now user c n rows = Inl (e, c') \<and> committed c' = committed c"
  using assms(1)
proof (induction rows arbitrary: c n)
  case Nil
  then show ?case by simp
next
  case (Cons row rows)
  show ?case
  proof (cases "import_row parse now user c row")
    case (Inl e)
    then show ?thesis by simp
  next
    case (Inr res)
    then have "row \<noteq> bad"
      using bad_row_raises [OF assms(2,3), of now user c] by auto
    with Cons.prems have mem: "bad \<in> set rows" by simp
    show ?thesis
    proof (cases res)
      case None
      with Inr Cons.IH [OF mem, of c n] show ?thesis by simp
    next
      case (Some c1)
      with Inr have "committed c1 = committed c"
        by (simp add: import_row_committed)
      with Inr Some Cons.IH [OF mem, of c1 "n + 1"] show ?thesis by auto
    qed
  qed
qed

text \<open>
  C10: if some row of the file has a symbol and a quantity or buy price that is present but
  not a number, the import flashes an error and the store is exactly what it was: no row of the
  file is inserted, whether it comes before or after the bad one.
\<close>

theorem C10_import_all_or_nothing:
  assumes "row \<in> set (dict_reader records)"
    and "symbol_text row \<noteq> []"
    and "unparseable parse row ''quantity'' \<or> unparseable parse row ''buy_price''"
  shows "\<exists>e. import_csv parse now (Some user) (Some records) d =
               (([ErrorImporting e], Redirect DashboardPage), d)"
proof -
  obtain e c' where
    loop: "import_loop parse now user \<lparr>committed = d, uncommitted = d\<rparr> 0 (dict_reader records) =
             Inl (e, c')"
    and keep: "committed c' = committed \<lparr>committed = d, uncommitted = d\<rparr>"
    using import_loop_bad [OF assms, of now user "\<lparr>committed = d, uncommitted = d\<rparr>" 0] by blast
  have "import_csv parse now (Some user) (Some records) d =
          (([ErrorImporting e], Redirect DashboardPage), d)"
    using keep by (simp add: import_csv_def require_login_def Let_def get_db_def loop close_def)
  then show ?thesis ..
qed

theorem C10_import_all_or_nothing_witness:
  "dict_row header4 [''MSFT'', ''Stock'', ''5'', ''abc''] \<in> set (dict_reader broken_middle_file) \<and>
   symbol_text (dict_row header4 [''MSFT'', ''Stock'', ''5'', ''abc'']) = ''MSFT'' \<and>
   unparseable float_sample (dict_row header4 [''MSFT'', ''Stock'', ''5'', ''abc'']) ''buy_price'' \<and>
   import_csv float_sample ''2024-03-01 12:00:00'' (Some 1) (Some broken_middle_file) sample_db =
     (([ErrorImporting ValueError], Redirect DashboardPage), sample_db)"
proof -
  have mem: "dict_row header4 [''MSFT'', ''Stock'', ''5'', ''abc''] \<in>
               set (dict_reader broken_middle_file)"
    by (simp add: dict_reader_def broken_middle_file_def)
  have sym: "symbol_text (dict_row header4 [''MSFT'', ''Stock'', ''5'', ''abc'']) = ''MSFT''"
    by (simp add: symbol_text_def dict_row_def header4_def)
  have bad: "unparseable float_sample (dict_row header4 [''MSFT'', ''Stock'', ''5'', ''abc''])
               ''buy_price''"
    by (simp add: unparseable_def dict_row_def header4_def float_sample_def)
  have ne: "symbol_text (dict_row header4 [''MSFT'', ''Stock'', ''5'', ''abc'']) \<noteq> []"
    by (simp add: sym)
  obtain e where
    res: "import_csv float_sample ''2024-03-01 12:00:00'' (Some 1) (Some broken_middle_file)
            sample_db = (([ErrorImporting e], Redirect DashboardPage), sample_db)"
    using C10_import_all_or_nothing [OF mem ne disjI2 [OF bad]] by blast
  have "import_csv float_sample ''2024-03-01 12:00:00'' (Some 1) (Some broken_middle_file)
          sample_db = (([ErrorImporting ValueError], Redirect DashboardPage), sample_db)"
    by (simp add: eval_import broken_middle_file_def)
  with mem sym bad show ?thesis by simp
qed

lemma export_csv_eq:
  "export_csv str_of (Some u) d =
     (([], CsvAttachment
             (header5 # map (export_record str_of)
                (filter (\<lambda>r. inv_user_id r = u) (investments d)))), d)"
  by (simp add: export_csv_def require_login_def Let_def get_db_def select_export_def close_def
      header5_def export_record_def)

lemma dict_reader_export:
  "dict_reader (header5 # map (export_record str_of) rs) =
     map (\<lambda>r. dict_row header5 (export_record str_of r)) rs"
  by (induction rs) (simp_all add: dict_reader_def export_record_def)

lemma exported_row_fields:
  "symbol_text (dict_row header5 (export_record str_of r)) = inv_symbol r"
  "dict_row header5 (export_record str_of r) ''category'' = Some (Some (inv_category r))"
  "field_number parse (dict_row header5 (export_record str_of r)) ''quantity'' =
     parse (str_of (inv_quantity r))"
  "field_number parse (dict_row header5 (export_record str_of r)) ''buy_price'' =
     parse (str_of (inv_buy_price r))"
  by (simp_all add: symbol_text_def field_number_def dict_row_def header5_def export_record_def)

lemma exported_row_ok:
  assumes "exportable parse str_of r"
  shows "row_readable parse (dict_row header5 (export_record str_of r))"
    and "row_accepted parse (dict_row header5 (export_record str_of r))"
  using assms
  by (simp_all add: row_readable_def row_accepted_def exported_row_fields exportable_def)

lemma export_import_roundtrip:
  assumes "\<forall>r\<in>set (investments d). inv_user_id r = u \<longrightarrow> exportable parse str_of r"
  shows "\<exists>csv. export_csv str_of (Some u) d = (([], CsvAttachment csv), d) \<and>
           holdings_of v (snd (import_csv parse now (Some v) (Some csv) d)) =
             holdings_of v d @ holdings_of u d"
proof -
  define rs where "rs = filter (\<lambda>r. inv_user_id r = u) (investments d)"
  define csv where "csv = header5 # map (export_record str_of) rs"
  have ok: "\<forall>r\<in>set rs. exportable parse str_of r"
    using assms by (simp add: rs_def)
  have rd: "\<forall>row\<in>set (dict_reader csv). row_readable parse row"
    using ok by (auto simp add: csv_def dict_reader_export exported_row_ok)
  have acc: "filter (row_accepted parse) (dict_reader csv) =
               map (\<lambda>r. dict_row header5 (export_record str_of r)) rs"
    using ok by (simp add: csv_def dict_reader_export filter_map o_def exported_row_ok)
  have tup: "map (\<lambda>row. (inv_symbol (new_investment parse now v 0 row),
               inv_category (new_investment parse now v 0 row),
               inv_quantity (new_investment parse now v 0 row),
               inv_buy_price (new_investment parse now v 0 row)))
             (map (\<lambda>r. dict_row header5 (export_record str_of r)) rs) =
             map (\<lambda>r. (inv_symbol r, inv_category r, inv_quantity r, inv_buy_price r)) rs"
    using ok by (auto simp add: new_investment_def exported_row_fields exportable_def)
  have "holdings_of v (snd (import_csv parse now (Some v) (Some csv) d)) =
          holdings_of v d @ holdings_of u d"
  proof -
    have hu: "holdings_of u d =
                map (\<lambda>r. (inv_symbol r, inv_category r, inv_quantity r, inv_buy_price r)) rs"
      by (simp add: holdings_of_def rs_def)
    show ?thesis
      unfolding import_csv_readable [OF rd] acc hu
      by (simp add: holdings_of_def user_new_investments tuples_new_investments tup
          del: map_map)
  qed
  moreover have "export_csv str_of (Some u) d = (([], CsvAttachment csv), d)"
    by (simp add: export_csv_eq csv_def rs_def)
  ultimately show ?thesis by blast
qed

text \<open>
  C8, the round trip, fails on a portfolio the application itself can build. Importing a row
  whose symbol is two spaces passes the test \<open>if not row.get("symbol")\<close> and stores the symbol
  stripped, that is empty; the export of that portfolio, imported by another user with an empty
  portfolio, is skipped as a row without symbol. \<open>add_investment\<close> strips the symbol before it
  tests it; \<open>import_csv\<close> tests first. The lemma \<open>export_import_roundtrip\<close> above shows that
  the round trip holds when every symbol is as \<open>add_investment\<close> stores it.
\<close>

theorem C8_blank_symbol_lost:
  "import_csv float_sample ''2024-03-01 12:00:00'' (Some 1) (Some blank_symbol_file) empty_db =
     (([Imported 1], Redirect DashboardPage), blank_symbol_db) \<and>
   holdings_of 1 blank_symbol_db = [([], ''Stock'', 5, 10)] \<and>
   holdings_of 2 blank_symbol_db = [] \<and>
   export_csv str_sample (Some 1) blank_symbol_db =
     (([], CsvAttachment blank_symbol_export), blank_symbol_db) \<and>
   import_csv float_sample ''2024-03-02 12:00:00'' (Some 2) (Some blank_symbol_export)
       blank_symbol_db =
     (([Imported 0], Redirect DashboardPage), blank_symbol_db)"
  by (simp add: eval_import blank_symbol_file_def empty_db_def blank_symbol_db_def
      holdings_of_def export_csv_def select_export_def str_sample_def blank_symbol_export_def)

section \<open>The transaction log\<close>

lemma edit_investment_ok:
  assumes "distinct (map inv_id (investments d))"
    and "r \<in> set (investments d)" and "inv_id r = i" and "inv_user_id r = user"
    and "parse (form_get form ''quantity'') = Some q"
    and "parse (form_get form ''buy_price'') = Some b"
    and "0 < q" and "0 < b"
  shows "edit_investment parse (Some user) POST form i d =
           (([InvestmentUpdated], Redirect DashboardPage),
            d\<lparr>investments :=
                 map (\<lambda>x. if x = r then r\<lparr>inv_quantity := q, inv_buy_price := b\<rparr> else x)
                     (investments d)\<rparr>)"
proof -
  have "select_investment i user (get_db d) = Some r"
    using assms(1-4) by (simp add: select_investment_owned)
  then have sel: "select_investment i user \<lparr>committed = d, uncommitted = d\<rparr> = Some r"
    by (simp add: get_db_def)
  have num: "positive_numbers parse (form_get form ''quantity'') (form_get form ''buy_price'') =
               Inr (q, b)"
    using assms(5-8) by (rule positive_numbers_ok)
  have upd: "map (\<lambda>x. if inv_id x = i then x\<lparr>inv_quantity := q, inv_buy_price := b\<rparr> else x)
                 (investments d) =
             map (\<lambda>x. if x = r then r\<lparr>inv_quantity := q, inv_buy_price := b\<rparr> else x)
                 (investments d)"
    using update_owned_row [OF assms(1,2)] assms(3) by simp
  show ?thesis
    by (simp add: edit_investment_def require_login_def Let_def get_db_def sel num
        update_investment_def commit_def close_def upd)
qed

lemma add_investment_ok:
  assumes "py_upper (py_strip (form_get form ''symbol'')) \<noteq> []"
    and "py_strip (form_get form ''category'') \<noteq> []"
    and "parse (form_get form ''quantity'') = Some q"
    and "parse (form_get form ''buy_price'') = Some b"
    and "0 < q" and "0 < b"
  shows "add_investment parse glp now (Some user) POST form d =
           (((case glp (py_upper (py_strip (form_get form ''symbol''))) of
                None \<Rightarrow> [SymbolNotVerified (py_upper (py_strip (form_get form ''symbol'')))]
              | Some _ \<Rightarrow> []) @
             [Added q (py_upper (py_strip (form_get form ''symbol'')))],
             Redirect DashboardPage),
            d\<lparr>investments := investments d @
                 [\<lparr>inv_id = Suc (investments_seq d), inv_user_id = user,
                   inv_symbol = py_upper (py_strip (form_get form ''symbol'')),
                   inv_category = py_strip (form_get form ''category''),
                   inv_quantity = q, inv_buy_price = b, inv_purchase_date = now\<rparr>],
               investments_seq := Suc (investments_seq d),
               transactions := transactions d @
                 [\<lparr>txn_id = Suc (transactions_seq d), txn_user_id = user,
                   txn_symbol = py_upper (py_strip (form_get form ''symbol'')),
                   txn_type = ''BUY'', txn_quantity = q, txn_price = b, txn_date = now\<rparr>],
               transactions_seq := Suc (transactions_seq d)\<rparr>)"
proof -
  have num: "positive_numbers parse (form_get form ''quantity'') (form_get form ''buy_price'') =
               Inr (q, b)"
    using assms(3-6) by (rule positive_numbers_ok)
  show ?thesis
    using assms(1,2)
    by (simp add: add_investment_def require_login_def Let_def num get_db_def
        insert_investment_def insert_transaction_def commit_def close_def)
qed

lemma add_transactions:
  "transactions (snd (add_investment parse glp now session method form d)) = transactions d \<or>
   (\<exists>t. transactions (snd (add_investment parse glp now session method form d)) =
          transactions d @ [t] \<and> txn_type t = ''BUY'')"
  by (simp add: add_investment_def require_login_def Let_def get_db_def
      insert_investment_def insert_transaction_def commit_def close_def
      split: option.split sum.split prod.split)

lemma delete_transactions:
  "transactions (snd (delete_investment now session i d)) = transactions d \<or>
   (\<exists>t. transactions (snd (delete_investment now session i d)) =
          transactions d @ [t] \<and> txn_type t = ''SELL'')"
  by (simp add: delete_investment_def require_login_def Let_def get_db_def
      insert_transaction_def delete_investment_row_def commit_def close_def
      split: option.split)

lemma import_row_keeps:
  "import_row parse now user c row = Inr (Some c') \<Longrightarrow>
   transactions (uncommitted c') = transactions (uncommitted c)"
  by (auto simp add: import_row_def insert_investment_def Let_def
      split: if_splits sum.splits option.splits)

lemma import_loop_keeps:
  "(import_loop parse now user c n rows = Inr (c', m) \<longrightarrow>
      transactions (uncommitted c') = transactions (uncommitted c)) \<and>
   (import_loop parse now user c n rows = Inl (e, c') \<longrightarrow> committed c' = committed c)"
proof (induction rows arbitrary: c n)
  case Nil
  show ?case by simp
next
  case (Cons row rows)
  show ?case
  proof (cases "import_row parse now user c row")
    case (Inl e')
    then show ?thesis by simp
  next
    case (Inr res)
    show ?thesis
    proof (cases res)
      case None
      with Inr Cons.IH [of c n] show ?thesis by simp
    next
      case (Some c1)
      with Inr have "transactions (uncommitted c1) = transactions (uncommitted c)"
        and "committed c1 = committed c"
        by (simp_all add: import_row_keeps import_row_committed)
      with Inr Some Cons.IH [of c1 "n + 1"] show ?thesis by simp
    qed
  qed
qed

lemma import_error_keeps_store:
  "fst (import_csv parse now (Some user) (Some records) d) = ([ErrorImporting e], Redirect DashboardPage)
   \<Longrightarrow> snd (import_csv parse now (Some user) (Some records) d) = d"
proof -
  assume a: "fst (import_csv parse now (Some user) (Some records) d) =
               ([ErrorImporting e], Redirect DashboardPage)"
  show ?thesis
  proof (cases "import_loop parse now user \<lparr>committed = d, uncommitted = d\<rparr> 0 (dict_reader records)")
    case (Inl ec)
    obtain e' c' where ec: "ec = (e', c')" by (cases ec)
    with Inl import_loop_keeps [of parse now user "\<lparr>committed = d, uncommitted = d\<rparr>" 0
        "dict_reader records" c' 0 e']
    have "committed c' = d" by simp
    with Inl ec show ?thesis
      by (simp add: import_csv_def require_login_def Let_def get_db_def close_def)
  next
    case (Inr cm)
    obtain c' m where cm: "cm = (c', m)" by (cases cm)
    with Inr a show ?thesis
      by (simp add: import_csv_def require_login_def Let_def get_db_def close_def commit_def)
  qed
qed

lemma import_keeps_transactions:
  "transactions (snd (import_csv parse now session upload d)) = transactions d"
proof (cases session)
  case None
  then show ?thesis by (simp add: import_csv_def require_login_def)
next
  case (Some user)
  show ?thesis
  proof (cases upload)
    case None
    with Some show ?thesis by (simp add: import_csv_def require_login_def)
  next
    case (Some records)
    show ?thesis
    proof (cases "import_loop parse now user \<lparr>committed = d, uncommitted = d\<rparr> 0 (dict_reader records)")
      case (Inl ec)
      obtain e c' where ec: "ec = (e, c')" by (cases ec)
      with Inl import_loop_keeps [of parse now user "\<lparr>committed = d, uncommitted = d\<rparr>" 0
          "dict_reader records" c' 0 e]
      have "committed c' = d" by simp
      with Inl ec Some \<open>session = Some user\<close> show ?thesis
        by (simp add: import_csv_def require_login_def Let_def get_db_def close_def)
    next
      case (Inr cm)
      obtain c' m where cm: "cm = (c', m)" by (cases cm)
      with Inr import_loop_keeps [of parse now user "\<lparr>committed = d, uncommitted = d\<rparr>" 0
          "dict_reader records" c' m]
      have "transactions (uncommitted c') = transactions d" by simp
      with Inr cm Some \<open>session = Some user\<close> show ?thesis
        by (simp add: import_csv_def require_login_def Let_def get_db_def close_def commit_def)
    qed
  qed
qed

lemma export_keeps_store: "snd (export_csv str_of session d) = d"
  by (simp add: export_csv_def require_login_def Let_def get_db_def close_def split: option.split)

lemma dashboard_keeps_store: "snd (dashboard glp session d) = d"
  by (simp add: dashboard_def require_login_def Let_def get_db_def close_def
      split: option.split sum.split)

lemma delete_owned_transactions:
  assumes "distinct (map inv_id (investments d))"
    and "r \<in> set (investments d)" and "inv_id r = i" and "inv_user_id r = user"
  shows "transactions (snd (delete_investment now (Some user) i d)) =
           transactions d @
             [\<lparr>txn_id = Suc (transactions_seq d), txn_user_id = user,
               txn_symbol = inv_symbol r, txn_type = ''SELL'',
               txn_quantity = inv_quantity r, txn_price = inv_buy_price r,
               txn_date = now\<rparr>]"
proof -
  have "select_investment i user (get_db d) = Some r"
    using assms by (simp add: select_investment_owned)
  then have sel: "select_investment i user \<lparr>committed = d, uncommitted = d\<rparr> = Some r"
    by (simp add: get_db_def)
  show ?thesis
    by (simp add: delete_investment_def require_login_def sel Let_def insert_transaction_def
        delete_investment_row_def commit_def close_def get_db_def)
qed

text \<open>
  C7: a successful edit (a POST with positive numbers, on an investment the user owns)
  replaces the quantity and buy price of that investment and nothing else: its symbol,
  category, date, id and owner, every other row, the transactions and the id counters are
  unchanged. No edit, successful or not, appends a transaction. Transactions come from two
  handlers only: a successful \<open>add_investment\<close>, the creation of an investment through the
  form, appends exactly one BUY row, and \<open>delete_investment\<close> of an owned investment appends
  exactly one SELL row; neither ever appends anything else. \<open>import_csv\<close>, which also inserts
  investments, \<open>export_csv\<close> and \<open>dashboard\<close> leave the transactions as they are on
  every path.
\<close>

theorem C7_edit:
  "(distinct (map inv_id (investments d)) \<and> r \<in> set (investments d) \<and>
    inv_id r = i \<and> inv_user_id r = user \<and>
    parse (form_get form ''quantity'') = Some q \<and>
    parse (form_get form ''buy_price'') = Some b \<and> 0 < q \<and> 0 < b \<longrightarrow>
      edit_investment parse (Some user) POST form i d =
        (([InvestmentUpdated], Redirect DashboardPage),
         d\<lparr>investments :=
              map (\<lambda>x. if x = r then r\<lparr>inv_quantity := q, inv_buy_price := b\<rparr> else x)
                  (investments d)\<rparr>)) \<and>
   transactions (snd (edit_investment parse session method form i d)) = transactions d \<and>
   (py_upper (py_strip (form_get aform ''symbol'')) \<noteq> [] \<and>
    py_strip (form_get aform ''category'') \<noteq> [] \<and>
    parse (form_get aform ''quantity'') = Some aq \<and>
    parse (form_get aform ''buy_price'') = Some ab \<and> 0 < aq \<and> 0 < ab \<longrightarrow>
      add_investment parse glp now (Some user) POST aform d =
        (((case glp (py_upper (py_strip (form_get aform ''symbol''))) of
             None \<Rightarrow> [SymbolNotVerified (py_upper (py_strip (form_get aform ''symbol'')))]
           | Some _ \<Rightarrow> []) @
          [Added aq (py_upper (py_strip (form_get aform ''symbol'')))],
          Redirect DashboardPage),
         d\<lparr>investments := investments d @
              [\<lparr>inv_id = Suc (investments_seq d), inv_user_id = user,
                inv_symbol = py_upper (py_strip (form_get aform ''symbol'')),
                inv_category = py_strip (form_get aform ''category''),
                inv_quantity = aq, inv_buy_price = ab, inv_purchase_date = now\<rparr>],
            investments_seq := Suc (investments_seq d),
            transactions := transactions d @
              [\<lparr>txn_id = Suc (transactions_seq d), txn_user_id = user,
                txn_symbol = py_upper (py_strip (form_get aform ''symbol'')),
                txn_type = ''BUY'', txn_quantity = aq, txn_price = ab, txn_date = now\<rparr>],
            transactions_seq := Suc (transactions_seq d)\<rparr>)) \<and>
   (transactions (snd (add_investment parse glp now session method aform d)) = transactions d \<or>
    (\<exists>t. transactions (snd (add_investment parse glp now session method aform d)) =
           transactions d @ [t] \<and> txn_type t = ''BUY'')) \<and>
   (distinct (map inv_id (investments d)) \<and> r \<in> set (investments d) \<and>
    inv_id r = i \<and> inv_user_id r = user \<longrightarrow>
      transactions (snd (delete_investment now (Some user) i d)) =
        transactions d @
          [\<lparr>txn_id = Suc (transactions_seq d), txn_user_id = user,
            txn_symbol = inv_symbol r, txn_type = ''SELL'',
            txn_quantity = inv_quantity r, txn_price = inv_buy_price r,
            txn_date = now\<rparr>]) \<and>
   (transactions (snd (delete_investment now session i d)) = transactions d \<or>
    (\<exists>t. transactions (snd (delete_investment now session i d)) =
           transactions d @ [t] \<and> txn_type t = ''SELL'')) \<and>
   transactions (snd (import_csv parse now session upload d)) = transactions d \<and>
   snd (export_csv str_of session d) = d \<and>
   snd (dashboard glp session d) = d"
proof (intro conjI impI)
  assume "distinct (map inv_id (investments d)) \<and> r \<in> set (investments d) \<and>
    inv_id r = i \<and> inv_user_id r = user \<and>
    parse (form_get form ''quantity'') = Some q \<and>
    parse (form_get form ''buy_price'') = Some b \<and> 0 < q \<and> 0 < b"
  then show "edit_investment parse (Some user) POST form i d =
        (([InvestmentUpdated], Redirect DashboardPage),
         d\<lparr>investments :=
              map (\<lambda>x. if x = r then r\<lparr>inv_quantity := q, inv_buy_price := b\<rparr> else x)
                  (investments d)\<rparr>)"
    by (intro edit_investment_ok) simp_all
next
  show "transactions (snd (edit_investment parse session method form i d)) = transactions d"
    by (rule edit_keeps_transactions)
next
  assume "py_upper (py_strip (form_get aform ''symbol'')) \<noteq> [] \<and>
    py_strip (form_get aform ''category'') \<noteq> [] \<and>
    parse (form_get aform ''quantity'') = Some aq \<and>
    parse (form_get aform ''buy_price'') = Some ab \<and> 0 < aq \<and> 0 < ab"
  then show "add_investment parse glp now (Some user) POST aform d =
        (((case glp (py_upper (py_strip (form_get aform ''symbol''))) of
             None \<Rightarrow> [SymbolNotVerified (py_upper (py_strip (form_get aform ''symbol'')))]
           | Some _ \<Rightarrow> []) @
          [Added aq (py_upper (py_strip (form_get aform ''symbol'')))],
          Redirect DashboardPage),
         d\<lparr>investments := investments d @
              [\<lparr>inv_id = Suc (investments_seq d), inv_user_id = user,
                inv_symbol = py_upper (py_strip (form_get aform ''symbol'')),
                inv_category = py_strip (form_get aform ''category''),
                inv_quantity = aq, inv_buy_price = ab, inv_purchase_date = now\<rparr>],
            investments_seq := Suc (investments_seq d),
            transactions := transactions d @
              [\<lparr>txn_id = Suc (transactions_seq d), txn_user_id = user,
                txn_symbol = py_upper (py_strip (form_get aform ''symbol'')),
                txn_type = ''BUY'', txn_quantity = aq, txn_price = ab, txn_date = now\<rparr>],
            transactions_seq := Suc (transactions_seq d)\<rparr>)"
    by (intro add_investment_ok) simp_all
next
  show "transactions (snd (add_investment parse glp now session method aform d)) = transactions d \<or>
    (\<exists>t. transactions (snd (add_investment parse glp now session method aform d)) =
           transactions d @ [t] \<and> txn_type t = ''BUY'')"
    by (rule add_transactions)
next
  assume "distinct (map inv_id (investments d)) \<and> r \<in> set (investments d) \<and>
    inv_id r = i \<and> inv_user_id r = user"
  then show "transactions (snd (delete_investment now (Some user) i d)) =
        transactions d @
          [\<lparr>txn_id = Suc (transactions_seq d), txn_user_id = user,
            txn_symbol = inv_symbol r, txn_type = ''SELL'',
            txn_quantity = inv_quantity r, txn_price = inv_buy_price r,
            txn_date = now\<rparr>]"
    by (intro delete_owned_transactions) simp_all
next
  show "transactions (snd (delete_investment now session i d)) = transactions d \<or>
    (\<exists>t. transactions (snd (delete_investment now session i d)) =
           transactions d @ [t] \<and> txn_type t = ''SELL'')"
    by (rule delete_transactions)
next
  show "transactions (snd (import_csv parse now session upload d)) = transactions d"
    by (rule import_keeps_transactions)
next
  show "snd (export_csv str_of session d) = d"
    by (rule export_keeps_store)
next
  show "snd (dashboard glp session d) = d"
    by (rule dashboard_keeps_store)
qed

theorem C7_edit_witness:
  "edit_investment float_sample (Some 2) POST edit_form 3 sample_db =
     (([InvestmentUpdated], Redirect DashboardPage),
      \<lparr>investments =
         [aapl,
          \<lparr>inv_id = 3, inv_user_id = 2, inv_symbol = ''TSLA'', inv_category = ''Stock'',
           inv_quantity = 15 / 2, inv_buy_price = 120,
           inv_purchase_date = ''2024-02-01 00:00:00''\<rparr>],
       transactions = [], investments_seq = 3, transactions_seq = 0\<rparr>) \<and>
   add_investment float_sample aapl_only ''2024-03-01 12:00:00'' (Some 2) POST add_form sample_db =
     (([SymbolNotVerified ''MSFT'', Added 5 ''MSFT''], Redirect DashboardPage),
      \<lparr>investments =
         [aapl, tsla,
          \<lparr>inv_id = 4, inv_user_id = 2, inv_symbol = ''MSFT'', inv_category = ''Tech'',
           inv_quantity = 5, inv_buy_price = 10,
           inv_purchase_date = ''2024-03-01 12:00:00''\<rparr>],
       transactions =
         [\<lparr>txn_id = 1, txn_user_id = 2, txn_symbol = ''MSFT'', txn_type = ''BUY'',
           txn_quantity = 5, txn_price = 10, txn_date = ''2024-03-01 12:00:00''\<rparr>],
       investments_seq = 4, transactions_seq = 1\<rparr>) \<and>
   transactions (snd (delete_investment ''2024-03-01 12:00:00'' (Some 2) 3 sample_db)) =
     [\<lparr>txn_id = 1, txn_user_id = 2, txn_symbol = ''TSLA'', txn_type = ''SELL'',
       txn_quantity = 5, txn_price = 20, txn_date = ''2024-03-01 12:00:00''\<rparr>] \<and>
   transactions (snd (import_csv float_sample ''2024-03-01 12:00:00'' (Some 2) (Some mixed_file)
                        sample_db)) = []"
proof -
  note c7 = C7_edit [where d = sample_db and r = tsla and i = 3 and user = 2
      and parse = float_sample and form = edit_form and q = "15 / 2" and b = 120
      and aform = add_form and aq = 5 and ab = 10 and glp = aapl_only
      and now = "''2024-03-01 12:00:00''" and session = "Some 2" and upload = "Some mixed_file"]
  have sym: "py_upper (py_strip (form_get add_form ''symbol'')) = ''MSFT''"
    by (simp add: form_get_def add_form_def py_strip_def py_upper_def py_isspace_def
        upper_char_def char_of_eq_iff)
  have cat: "py_strip (form_get add_form ''category'') = ''Tech''"
    by (simp add: form_get_def add_form_def py_strip_def py_isspace_def)
  have nums: "float_sample (form_get add_form ''quantity'') = Some 5"
    "float_sample (form_get add_form ''buy_price'') = Some 10"
    "float_sample (form_get edit_form ''quantity'') = Some (15 / 2)"
    "float_sample (form_get edit_form ''buy_price'') = Some 120"
    by (simp_all add: form_get_def add_form_def edit_form_def float_sample_def)
  have dist: "distinct (map inv_id (investments sample_db))"
    and mem: "tsla \<in> set (investments sample_db)"
    and own: "inv_id tsla = 3" "inv_user_id tsla = 2"
    by (simp_all add: sample_db_def aapl_def tsla_def)
  have ne: "aapl \<noteq> tsla"
    by (simp add: aapl_def tsla_def)
  have e: "edit_investment float_sample (Some 2) POST edit_form 3 sample_db =
     (([InvestmentUpdated], Redirect DashboardPage),
      sample_db\<lparr>investments :=
         map (\<lambda>x. if x = tsla then tsla\<lparr>inv_quantity := 15 / 2, inv_buy_price := 120\<rparr> else x)
             (investments sample_db)\<rparr>)"
    using c7 [THEN conjunct1] dist mem own nums by simp
  have a: "add_investment float_sample aapl_only ''2024-03-01 12:00:00'' (Some 2) POST add_form
             sample_db =
     (([SymbolNotVerified ''MSFT'', Added 5 ''MSFT''], Redirect DashboardPage),
      \<lparr>investments =
         [aapl, tsla,
          \<lparr>inv_id = 4, inv_user_id = 2, inv_symbol = ''MSFT'', inv_category = ''Tech'',
           inv_quantity = 5, inv_buy_price = 10,
           inv_purchase_date = ''2024-03-01 12:00:00''\<rparr>],
       transactions =
         [\<lparr>txn_id = 1, txn_user_id = 2, txn_symbol = ''MSFT'', txn_type = ''BUY'',
           txn_quantity = 5, txn_price = 10, txn_date = ''2024-03-01 12:00:00''\<rparr>],
       investments_seq = 4, transactions_seq = 1\<rparr>)"
    using c7 [THEN conjunct2, THEN conjunct2, THEN conjunct1] nums
    by (simp add: sym cat aapl_only_def sample_db_def)
  have dl: "transactions (snd (delete_investment ''2024-03-01 12:00:00'' (Some 2) 3 sample_db)) =
     [\<lparr>txn_id = 1, txn_user_id = 2, txn_symbol = ''TSLA'', txn_type = ''SELL'',
       txn_quantity = 5, txn_price = 20, txn_date = ''2024-03-01 12:00:00''\<rparr>]"
    using c7 [THEN conjunct2, THEN conjunct2, THEN conjunct2, THEN conjunct2, THEN conjunct1]
      dist mem own
    by (simp add: sample_db_def tsla_def)
  have im: "transactions (snd (import_csv float_sample ''2024-03-01 12:00:00'' (Some 2)
              (Some mixed_file) sample_db)) = []"
    using c7 [THEN conjunct2, THEN conjunct2, THEN conjunct2, THEN conjunct2, THEN conjunct2,
        THEN conjunct2, THEN conjunct1]
    by (simp add: sample_db_def)
  from e a dl im ne show ?thesis
    by (simp add: sample_db_def tsla_def)
qed

end
